theory Spec2Isabelle
  imports Complex_Main
begin

section \<open>OItrainer: the contest core of the coaching game\<close>

text \<open>
  The game is written in JavaScript. Outside the gain allocator every JavaScript
  number is modelled as a real number: arithmetic is exact, and the rounding of doubles
  is left out. The gain allocator, whose result is claimed to add up exactly, is
  modelled with the rounding of doubles. \<open>NaN\<close> and the infinities are outside the
  model. A field that may be \<open>undefined\<close> is an option. \<open>Math.floor\<close> is \<open>floor\<close>, and
  \<open>Math.round x\<close> is \<open>floor (x + 1/2)\<close>.
\<close>

subsection \<open>The arithmetic of doubles\<close>








subsection \<open>The gain allocator (contest-integration, \<open>distributeContestGains\<close>)\<close>

text \<open>
  A problem as \<open>distributeContestGains\<close> and \<open>handleMockContestResults\<close> read it:
  \<open>maxScore\<close>, the \<open>actualScore\<close> added by the caller, the difficulty references
  \<open>thinkingBase\<close> and \<open>codingBase\<close> (possibly undefined) and the knowledge tags.
\<close>

record problem =
  maxScore :: real
  actualScore :: real
  thinkingBase :: "real option"
  codingBase :: "real option"
  tags :: "string list"

text \<open>\<open>a || b\<close> on numbers that may be undefined: \<open>a\<close> when it is truthy (defined and
  not zero), otherwise \<open>b\<close>.\<close>

definition js_or :: "real option \<Rightarrow> real \<Rightarrow> real" where
  "js_or a b = (case a of None \<Rightarrow> b | Some x \<Rightarrow> if x \<noteq> 0 then x else b)"













subsection \<open>Constants and helpers of \<open>script.js\<close>\<close>

definition KNOWLEDGE_WEIGHT :: real where "KNOWLEDGE_WEIGHT = 6 / 10"
definition ABILITY_WEIGHT :: real where "ABILITY_WEIGHT = 4 / 10"
definition RECOVERY_RATE :: real where "RECOVERY_RATE = 7"
definition FATIGUE_FROM_PRESSURE :: real where "FATIGUE_FROM_PRESSURE = 180"
definition ALPHA1 :: real where "ALPHA1 = 28"
definition KNOWLEDGE_FORGET_RATE :: real where "KNOWLEDGE_FORGET_RATE = 997 / 1000"
definition NOI_GOLD_THRESHOLD :: real where "NOI_GOLD_THRESHOLD = 9 / 10"
definition NOI_SILVER_THRESHOLD :: real where "NOI_SILVER_THRESHOLD = 6 / 10"
definition NOI_BRONZE_THRESHOLD :: real where "NOI_BRONZE_THRESHOLD = 4 / 10"

text \<open>\<open>uniform(min, max)\<close> and \<open>uniformInt(min, max)\<close>; the value \<open>r\<close> of
  \<open>Math.random()\<close> is an argument. \<open>normal(mean, stddev)\<close> takes the standard normal
  draw \<open>z\<close> (the Box-Muller value) as an argument.\<close>

definition uniform :: "real \<Rightarrow> real \<Rightarrow> real \<Rightarrow> real" where
  "uniform r mn mx = mn + r * (mx - mn)"

definition uniformInt :: "real \<Rightarrow> real \<Rightarrow> real \<Rightarrow> real" where
  "uniformInt r mn mx = of_int \<lfloor>mn + r * (mx - mn + 1)\<rfloor>"

definition normal :: "real \<Rightarrow> real \<Rightarrow> real \<Rightarrow> real" where
  "normal z mean stddev = z * stddev + mean"

definition clamp :: "real \<Rightarrow> real \<Rightarrow> real \<Rightarrow> real" where
  "clamp val mn mx = max mn (min mx val)"

definition clampInt :: "real \<Rightarrow> real \<Rightarrow> real \<Rightarrow> real" where
  "clampInt v mn mx = max mn (min mx (of_int \<lfloor>v + 1 / 2\<rfloor>))"

definition sigmoid :: "real \<Rightarrow> real" where
  "sigmoid x = 1 / (1 + exp (- x))"

subsection \<open>The competitor (\<open>class Student\<close>)\<close>

record student =
  name :: string
  thinking :: real
  coding :: real
  mental :: real
  knowledge_ds :: real
  knowledge_graph :: real
  knowledge_string :: real
  knowledge_math :: real
  knowledge_dp :: real
  pressure :: real
  comfort :: real
  active :: bool
  sick_weeks :: real

text \<open>The knowledge tags are Chinese words; a string is its UTF-8 bytes.\<close>

definition tag_ds :: string where
  "tag_ds = [CHR 0xE6, CHR 0x95, CHR 0xB0, CHR 0xE6, CHR 0x8D, CHR 0xAE,
             CHR 0xE7, CHR 0xBB, CHR 0x93, CHR 0xE6, CHR 0x9E, CHR 0x84]"

definition tag_graph :: string where
  "tag_graph = [CHR 0xE5, CHR 0x9B, CHR 0xBE, CHR 0xE8, CHR 0xAE, CHR 0xBA]"

definition tag_string :: string where
  "tag_string = [CHR 0xE5, CHR 0xAD, CHR 0x97, CHR 0xE7, CHR 0xAC, CHR 0xA6,
                 CHR 0xE4, CHR 0xB8, CHR 0xB2]"

definition tag_math :: string where
  "tag_math = [CHR 0xE6, CHR 0x95, CHR 0xB0, CHR 0xE5, CHR 0xAD, CHR 0xA6]"

definition tag_dp_cn :: string where
  "tag_dp_cn = [CHR 0xE5, CHR 0x8A, CHR 0xA8, CHR 0xE6, CHR 0x80, CHR 0x81,
                CHR 0xE8, CHR 0xA7, CHR 0x84, CHR 0xE5, CHR 0x88, CHR 0x92]"

definition tag_composite :: string where
  "tag_composite = [CHR 0xE7, CHR 0xBB, CHR 0xBC, CHR 0xE5, CHR 0x90, CHR 0x88]"

definition getAbilityAvg :: "student \<Rightarrow> real" where
  "getAbilityAvg s = (thinking s + coding s + mental s) / 3"

definition getKnowledgeTotal :: "student \<Rightarrow> real" where
  "getKnowledgeTotal s =
     (knowledge_ds s + knowledge_graph s + knowledge_string s + knowledge_math s
        + knowledge_dp s) / 5"

definition getComprehensiveAbility :: "student \<Rightarrow> real" where
  "getComprehensiveAbility s =
     (let ability_avg = getAbilityAvg s;
          knowledge_total = getKnowledgeTotal s
      in ABILITY_WEIGHT * ability_avg + KNOWLEDGE_WEIGHT * knowledge_total)"

text \<open>\<open>getMentalIndex\<close>; \<open>z\<close> is the normal draw behind \<open>normal(0, 3.0)\<close>.\<close>

definition getMentalIndex :: "student \<Rightarrow> real \<Rightarrow> real" where
  "getMentalIndex s z =
     (let noise = normal z 0 3;
          result = mental s - ALPHA1 * (pressure s / 100) * (1 - comfort s / 100) + noise
      in clamp result 0 100)"

text \<open>The local \<open>final_ratio\<close> of \<open>getPerformanceScore\<close> after its clamp; \<open>z1\<close> is
  the draw of the mental index and \<open>z2\<close> the draw of \<open>random_factor\<close>.\<close>

definition final_ratio :: "student \<Rightarrow> real \<Rightarrow> real \<Rightarrow> real \<Rightarrow> real \<Rightarrow> real" where
  "final_ratio s difficulty knowledge_value z1 z2 =
     (let comprehensive = getComprehensiveAbility s;
          mental_idx = getMentalIndex s z1;
          knowledge_bonus = knowledge_value * 2;
          effective_ability = comprehensive + knowledge_bonus;
          performance_ratio = sigmoid ((effective_ability - difficulty) / 10);
          stability_factor = mental_idx / 100;
          base_noise = 5 / 100;
          sigma_performance = (100 - mental_idx) / 200 + base_noise;
          random_factor = normal z2 0 sigma_performance
      in clamp (performance_ratio * stability_factor * (1 + random_factor)) 0 1)"

definition getPerformanceScore ::
  "student \<Rightarrow> real \<Rightarrow> real \<Rightarrow> real \<Rightarrow> real \<Rightarrow> real \<Rightarrow> real" where
  "getPerformanceScore s difficulty mxScore knowledge_value z1 z2 =
     max 0 (final_ratio s difficulty knowledge_value z1 z2 * mxScore)"

definition getKnowledgeByType :: "student \<Rightarrow> string \<Rightarrow> real" where
  "getKnowledgeByType s type =
     (if type = tag_ds then knowledge_ds s
      else if type = tag_graph then knowledge_graph s
      else if type = tag_string then knowledge_string s
      else if type = tag_math then knowledge_math s
      else if type = ''DP'' \<or> type = tag_dp_cn then knowledge_dp s
      else 0)"

definition addKnowledge :: "student \<Rightarrow> string \<Rightarrow> real \<Rightarrow> student" where
  "addKnowledge s type amount =
     (if type = tag_ds then s\<lparr>knowledge_ds := knowledge_ds s + amount\<rparr>
      else if type = tag_graph then s\<lparr>knowledge_graph := knowledge_graph s + amount\<rparr>
      else if type = tag_string then s\<lparr>knowledge_string := knowledge_string s + amount\<rparr>
      else if type = tag_math then s\<lparr>knowledge_math := knowledge_math s + amount\<rparr>
      else if type = ''DP'' \<or> type = tag_dp_cn then s\<lparr>knowledge_dp := knowledge_dp s + amount\<rparr>
      else s)"

subsection \<open>Scoring one problem of a formal contest (\<open>holdCompetitionModal\<close>)\<close>

text \<open>The body of the inner loop of \<open>holdCompetitionModal\<close> for one problem: the
  average knowledge over the problem's tags (\<open>avgK\<close>; the contest gives every problem
  one to three tags), the performance score out of the constant 100, then
  \<open>Math.floor\<close>, the step down to a multiple of ten and \<open>clampInt\<close>.\<close>

definition avgK :: "student \<Rightarrow> string list \<Rightarrow> real" where
  "avgK s tgs =
     (let totalK = foldl (\<lambda>k t. k + getKnowledgeByType s t) 0 tgs
      in of_int \<lfloor>totalK / of_nat (length tgs)\<rfloor>)"

definition problemScore :: "student \<Rightarrow> string list \<Rightarrow> real \<Rightarrow> real \<Rightarrow> real \<Rightarrow> real" where
  "problemScore s tgs difficulty z1 z2 =
     (let score = getPerformanceScore s difficulty 100 (avgK s tgs) z1 z2;
          final = (of_int \<lfloor>score\<rfloor> :: real);
          final = (of_int \<lfloor>final / 10\<rfloor> * 10 :: real)
      in clampInt final 0 100)"

subsection \<open>Applying the knowledge gains of a mock contest (\<open>handleMockContestResults\<close>)\<close>

text \<open>One turn of the loop \<open>for(let i = 0; i < state.problems.length; i++)\<close>: the gain
  of the problem is split over its tags by floor division and every tag is credited
  through \<open>addKnowledge\<close>; a gain or a share that is not positive skips the problem.\<close>

definition applyProblemGain :: "student \<Rightarrow> problem \<Rightarrow> real \<Rightarrow> student" where
  "applyProblemGain s prob knowledgeGain =
     (if knowledgeGain \<le> 0 then s
      else
        let tagCount = max 1 (of_nat (length (tags prob)));
            perTagGain = of_int \<lfloor>knowledgeGain / tagCount\<rfloor>
        in if perTagGain \<le> 0 then s
           else foldl (\<lambda>st tag. addKnowledge st tag perTagGain) s (tags prob))"

text \<open>The whole loop; \<open>knowledgeGains[i] || 0\<close> reads 0 past the end of the gains.\<close>

fun applyKnowledgeGains :: "student \<Rightarrow> problem list \<Rightarrow> real list \<Rightarrow> student" where
  "applyKnowledgeGains s [] gains = s"
| "applyKnowledgeGains s (prob # probs) gains =
     applyKnowledgeGains
       (applyProblemGain s prob (case gains of [] \<Rightarrow> 0 | g # _ \<Rightarrow> g)) probs (tl gains)"

text \<open>The sum of the five knowledge axes, and the tags \<open>addKnowledge\<close> knows.\<close>

definition knowledgeSum :: "student \<Rightarrow> real" where
  "knowledgeSum s =
     knowledge_ds s + knowledge_graph s + knowledge_string s + knowledge_math s
       + knowledge_dp s"

definition knownTag :: "string \<Rightarrow> bool" where
  "knownTag t =
     (t = tag_ds \<or> t = tag_graph \<or> t = tag_string \<or> t = tag_math \<or> t = ''DP''
        \<or> t = tag_dp_cn)"

subsection \<open>The environment and the game state (contest-integration)\<close>

text \<open>
  What the contest functions read from their surroundings. \<open>globals\<close> is the lookup
  of an identifier in the global scope, as \<open>typeof X\<close> and a bare \<open>X\<close> do it: \<open>None\<close>
  is an identifier that is not declared there (\<open>typeof\<close> gives \<open>'undefined'\<close>, a bare
  read throws a ReferenceError). \<open>window_num\<close> reads a numeric property \<open>window.X\<close>,
  \<open>window_fun f\<close> is \<open>typeof window.f === 'function'\<close>, and \<open>COMPETITION_ORDER\<close> is
  the array \<open>window.COMPETITION_ORDER\<close> when it is set.
\<close>

record env =
  globals :: "string \<Rightarrow> real option"
  window_num :: "string \<Rightarrow> real option"
  window_fun :: "string \<Rightarrow> bool"
  COMPETITION_ORDER :: "string list option"

datatype js_error = ReferenceError

datatype medal = gold | silver | bronze

text \<open>The remark of a result is one of three texts: the empty string, the poor-showing
  template with its number, and the fixed text of a competitor who did not qualify.\<close>

datatype remark = NoRemark | PoorShowing real | NotQualified

record career_entry =
  ce_name :: string
  ce_rank :: "nat option"
  ce_score :: "real option"
  ce_passed :: bool
  ce_eligible :: "bool option"
  ce_medal :: "medal option"
  ce_remark :: remark

record career =
  c_week :: real
  c_name :: string
  c_passedCount :: nat
  c_totalStudents :: nat
  c_entries :: "career_entry list"

text \<open>
  The part of \<open>window.game\<close> the contest core works on. A roster entry may be null.
  The qualification ledger \<open>game.qualification[half][contest]\<close> is one map from the pair
  to the set of names, \<open>None\<close> where no set was created; the ledger itself may be
  undefined. The sets of keys and the career list are created on first use in the
  source; an undefined one is the empty one here. A key \<open>`${half}_${name}_${week}`\<close> is
  the triple it is built from.
\<close>

record game =
  students :: "student option list"
  week :: real
  budget :: real
  province_type :: string
  qualification :: "(nat \<times> string \<Rightarrow> string set option) option"
  completedCompetitions :: "(nat \<times> string \<times> real option) set"
  careerCompetitions :: "career list"
  fundingIssued :: "(nat \<times> string \<times> real) set"
  seasonEndTriggered :: bool

text \<open>
  What a contest function does to the outside, in the order it does it. A call of
  \<open>window.triggerGameEnding\<close> and a save to \<open>localStorage\<close> carry the game as it is at
  that moment. Calls that only print (\<open>console\<close>, \<open>log\<close>) are left out.
\<close>

datatype action =
    Alert
  | TriggerGameEnding string game
  | PushEvent string
  | SaveLocal game
  | SetEndingReason string
  | ShowModal
  | GoEndPage
  | RenderAll
  | SaveGame
  | ShowDetailedResults real

record comp =
  comp_name :: string
  comp_week :: "real option"
  comp_maxScore :: "real option"

record config =
  cfg_name :: string
  cfg_problems :: "problem list option"

text \<open>The state the contest engine hands back for one participant: the competitor,
  the total score, and a pass line of its own, which is usually undefined.\<close>

record studentState =
  st_student :: student
  totalScore :: real
  st_passLine :: "real option"

text \<open>An entry of the list \<open>results\<close>. Its field \<open>problems\<close>, which only the display
  of the results reads, is left out.\<close>

record result =
  r_student :: student
  r_score :: "real option"
  r_passed :: bool
  r_medal :: "medal option"
  r_extraPressure :: real
  r_remark :: remark
  r_notParticipated :: bool

definition name_provincial :: string where
  "name_provincial = [CHR 0xE7, CHR 0x9C, CHR 0x81, CHR 0xE9, CHR 0x80, CHR 0x89]"

definition province_strong :: string where
  "province_strong = [CHR 0xE5, CHR 0xBC, CHR 0xBA, CHR 0xE7, CHR 0x9C, CHR 0x81]"

definition province_weak :: string where
  "province_weak = [CHR 0xE5, CHR 0xBC, CHR 0xB1, CHR 0xE7, CHR 0x9C, CHR 0x81]"

definition CHAIN_BROKEN :: string where
  "CHAIN_BROKEN = [CHR 0xE6, CHR 0x99, CHR 0x8B, CHR 0xE7, CHR 0xBA, CHR 0xA7, CHR 0xE9,
                   CHR 0x93, CHR 0xBE, CHR 0xE6, CHR 0x96, CHR 0xAD, CHR 0xE8, CHR 0xA3,
                   CHR 0x82]"

definition suffix_skipped :: string where
  "suffix_skipped = [CHR 0x20, CHR 0xE8, CHR 0xB7, CHR 0xB3, CHR 0xE8, CHR 0xBF, CHR 0x87]"

definition event_funding :: string where
  "event_funding = [CHR 0xE6, CHR 0x8B, CHR 0xA8, CHR 0xE6, CHR 0xAC, CHR 0xBE]"

definition compOrder :: "env \<Rightarrow> string list" where
  "compOrder e =
     (case COMPETITION_ORDER e of
        None \<Rightarrow> [''CSP-S1'', ''CSP-S2'', ''NOIP'', name_provincial, ''NOI'']
      | Some order \<Rightarrow> order)"

text \<open>\<open>Array.prototype.indexOf\<close>: the first index of the element, or -1.\<close>

fun indexOf :: "string list \<Rightarrow> string \<Rightarrow> int" where
  "indexOf [] x = - 1"
| "indexOf (y # ys) x =
     (if y = x then 0 else (let r = indexOf ys x in if r < 0 then - 1 else r + 1))"

text \<open>\<open>(typeof X !== 'undefined') ? X : d\<close>\<close>

definition globalOr :: "env \<Rightarrow> string \<Rightarrow> real \<Rightarrow> real" where
  "globalOr e x d = (case globals e x of None \<Rightarrow> d | Some v \<Rightarrow> v)"

definition halfBoundary :: "env \<Rightarrow> real" where
  "halfBoundary e =
     (case globals e ''WEEKS_PER_HALF'' of
        Some w \<Rightarrow> w
      | None \<Rightarrow> of_int \<lfloor>globalOr e ''SEASON_WEEKS'' 26 / 2\<rfloor>)"

definition halfIndex :: "env \<Rightarrow> game \<Rightarrow> nat" where
  "halfIndex e g = (if week g > halfBoundary e then 1 else 0)"

subsection \<open>Eligibility (\<open>holdCompetitionModalNew\<close>)\<close>

definition hasQualification ::
  "(nat \<times> string \<Rightarrow> string set option) \<Rightarrow> nat \<Rightarrow> string \<Rightarrow> string \<Rightarrow> bool" where
  "hasQualification q h prevComp nm =
     (case q (h, prevComp) of None \<Rightarrow> False | Some names \<Rightarrow> nm \<in> names)"

text \<open>The loop \<open>for(let s of game.students)\<close>: a null or inactive entry is skipped, a
  competitor goes to the eligible list or to the ineligible one. The result is the pair
  of the two lists, in roster order.\<close>

fun eligibilityLoop ::
  "(nat \<times> string \<Rightarrow> string set option) \<Rightarrow> string list \<Rightarrow> int \<Rightarrow> nat
     \<Rightarrow> student option list \<Rightarrow> student list \<times> student list" where
  "eligibilityLoop q order currentIdx h [] = ([], [])"
| "eligibilityLoop q order currentIdx h (None # rest) =
     eligibilityLoop q order currentIdx h rest"
| "eligibilityLoop q order currentIdx h (Some s # rest) =
     (if \<not> active s then eligibilityLoop q order currentIdx h rest
      else
        let isEligible =
              (if currentIdx > 0
               then hasQualification q h (order ! nat (currentIdx - 1)) (name s)
               else True);
            (eligible, ineligible) = eligibilityLoop q order currentIdx h rest
        in if isEligible then (s # eligible, ineligible) else (eligible, s # ineligible))"

text \<open>The ledger after \<open>if(!game.qualification) game.qualification = {}\<close>.\<close>

definition ledger :: "game \<Rightarrow> (nat \<times> string \<Rightarrow> string set option)" where
  "ledger g = (case qualification g of None \<Rightarrow> (\<lambda>_. None) | Some q \<Rightarrow> q)"

definition eligibleStudents :: "env \<Rightarrow> game \<Rightarrow> string \<Rightarrow> student list" where
  "eligibleStudents e g compName =
     fst (eligibilityLoop (ledger g) (compOrder e) (indexOf (compOrder e) compName)
            (halfIndex e g) (students g))"

definition ineligibleStudents :: "env \<Rightarrow> game \<Rightarrow> string \<Rightarrow> student list" where
  "ineligibleStudents e g compName =
     snd (eligibilityLoop (ledger g) (compOrder e) (indexOf (compOrder e) compName)
            (halfIndex e g) (students g))"

subsection \<open>The chain-failure ending\<close>

text \<open>Both places that end the season run the same steps: the unified function when it
  is there, otherwise an event, the flag \<open>seasonEndTriggered\<close>, the save, the ending
  reason and the page. \<open>signalActions\<close> is what these steps do to the outside.\<close>

definition signalActions :: "env \<Rightarrow> game \<Rightarrow> action list" where
  "signalActions e g =
     (if window_fun e ''triggerGameEnding'' then [TriggerGameEnding CHAIN_BROKEN g]
      else
        (if window_fun e ''pushEvent'' then [PushEvent CHAIN_BROKEN] else [])
        @ [SaveLocal (g\<lparr>seasonEndTriggered := True\<rparr>), SetEndingReason CHAIN_BROKEN,
           if window_fun e ''showModal'' \<and> window_fun e ''closeModal''
           then ShowModal else GoEndPage])"

fun signalChainBroken :: "env \<Rightarrow> game \<times> action list \<Rightarrow> game \<times> action list" where
  "signalChainBroken e (g, tr) =
     (if window_fun e ''triggerGameEnding'' then g else g\<lparr>seasonEndTriggered := True\<rparr>,
      tr @ signalActions e g)"

text \<open>An action that signals the chain-failure ending.\<close>

definition isEndingSignal :: "action \<Rightarrow> bool" where
  "isEndingSignal a =
     (case a of
        TriggerGameEnding reason g \<Rightarrow> reason = CHAIN_BROKEN
      | SetEndingReason reason \<Rightarrow> reason = CHAIN_BROKEN
      | _ \<Rightarrow> False)"

text \<open>The names the ledger holds for a half-season and a contest; none where the set
  or the ledger does not exist.\<close>

definition qualifiedNames :: "game \<Rightarrow> nat \<times> string \<Rightarrow> string set" where
  "qualifiedNames g k = (case ledger g k of None \<Rightarrow> {} | Some names \<Rightarrow> names)"

text \<open>The career record of a contest nobody could enter.\<close>

definition skippedRecord :: "game \<Rightarrow> comp \<Rightarrow> career" where
  "skippedRecord g cmp =
     \<lparr>c_week = week g, c_name = comp_name cmp, c_passedCount = 0, c_totalStudents = 0,
      c_entries =
        map (\<lambda>s. \<lparr>ce_name = name s, ce_rank = None, ce_score = None, ce_passed = False,
                   ce_eligible = Some False, ce_medal = None, ce_remark = NotQualified\<rparr>)
          (filter active (List.map_filter (\<lambda>s. s) (students g)))\<rparr>"

datatype outcome = Ended | Skipped | Started "student list" "student list"

text \<open>
  \<open>holdCompetitionModalNew\<close>, for loaded modules and a roster that is an array. With
  eligible competitors it builds the contest and starts the simulator of the engine,
  which later calls \<open>handleCompetitionResults\<close>: the outcome \<open>Started\<close> carries the
  eligible and the ineligible list.
\<close>

fun holdCompetitionModalNew ::
  "env \<Rightarrow> comp \<Rightarrow> game \<times> action list \<Rightarrow> outcome \<times> game \<times> action list" where
  "holdCompetitionModalNew e cmp (g, tr) =
     (let hIndex = halfIndex e g;
          g0 = g\<lparr>qualification := Some (ledger g)\<rparr>;
          eligible = eligibleStudents e g0 (comp_name cmp);
          ineligible = ineligibleStudents e g0 (comp_name cmp)
      in if eligible = [] then
           (if hIndex = 1 then
              let g1 = g0\<lparr>completedCompetitions :=
                           insert (hIndex, comp_name cmp, comp_week cmp)
                             (completedCompetitions g0)\<rparr>;
                  g2 = g1\<lparr>careerCompetitions :=
                           careerCompetitions g1 @ [skippedRecord g1 cmp]\<rparr>
              in (Ended, signalChainBroken e (g2, tr @ [Alert]))
            else
              let tr1 = (if window_fun e ''pushEvent''
                         then tr @ [PushEvent (comp_name cmp @ suffix_skipped)] else tr);
                  g1 = g0\<lparr>completedCompetitions :=
                           insert (hIndex, comp_name cmp, comp_week cmp)
                             (completedCompetitions g0)\<rparr>;
                  g2 = g1\<lparr>careerCompetitions :=
                           careerCompetitions g1 @ [skippedRecord g1 cmp]\<rparr>
              in (Skipped, g2, if window_fun e ''renderAll'' then tr1 @ [RenderAll] else tr1))
         else (Started eligible ineligible, g0, tr))"

subsection \<open>Pass rate and pass line\<close>

definition getPassRateForCompetition :: "env \<Rightarrow> game \<Rightarrow> string \<Rightarrow> real" where
  "getPassRateForCompetition e g compName =
     (let baseRate =
            (if province_type g = province_strong
             then js_or (window_num e ''STRONG_PROVINCE_BASE_PASS_RATE'') (65 / 100)
             else if province_type g = province_weak
             then js_or (window_num e ''WEAK_PROVINCE_BASE_PASS_RATE'') (4 / 10)
             else js_or (window_num e ''NORMAL_PROVINCE_BASE_PASS_RATE'') (5 / 10))
      in if compName = name_provincial
         then baseRate + js_or (window_num e ''PROVINCIAL_SELECTION_BONUS'') (2 / 10)
         else baseRate)"

text \<open>\<open>sortedScores[passCount - 1] || 0\<close> reads 0 past the end of the array.\<close>

definition calculatePassLine :: "env \<Rightarrow> real list \<Rightarrow> real \<Rightarrow> real \<Rightarrow> string \<Rightarrow> real" where
  "calculatePassLine e sortedScores passRate totalMax compName =
     (if sortedScores = [] then 0
      else
        let passCount = max 1 \<lfloor>of_nat (length sortedScores) * passRate\<rfloor>;
            baseLine = (if nat (passCount - 1) < length sortedScores
                        then js_or (Some (sortedScores ! nat (passCount - 1))) 0 else 0);
            baseLine =
              (if totalMax > 0 then
                 (if compName = ''NOI'' then max baseLine (totalMax * (8 / 10))
                  else min (max baseLine (totalMax * (3 / 10))) (totalMax * (9 / 10)))
               else baseLine);
            passLineMult = globalOr e ''PASS_LINE_MULTIPLIER'' 1
        in baseLine * passLineMult)"

definition totalMaxOf :: "config \<Rightarrow> comp \<Rightarrow> real" where
  "totalMaxOf cfg cmp =
     (case cfg_problems cfg of
        Some ps \<Rightarrow> foldl (\<lambda>sum p. sum + js_or (Some (maxScore p)) 0) 0 ps
      | None \<Rightarrow> js_or (comp_maxScore cmp) 0)"

text \<open>\<open>scores.length ? Math.min.apply(null, scores) : 0\<close>\<close>

definition minOf :: "real list \<Rightarrow> real" where
  "minOf scores = (case scores of [] \<Rightarrow> 0 | x # xs \<Rightarrow> fold min xs x)"

subsection \<open>The result of one participant (\<open>handleCompetitionResults\<close>)\<close>

definition basePressureUpdate :: "env \<Rightarrow> bool \<Rightarrow> student \<Rightarrow> student" where
  "basePressureUpdate e passed s =
     (let pressureMult = globalOr e ''PRESSURE_INCREASE_MULTIPLIER'' 1
      in if passed
         then s\<lparr>pressure := max 0 (pressure s - 10), mental := min 100 (mental s + 3)\<rparr>
         else s\<lparr>pressure := min 100 (pressure s + 15 * pressureMult),
                mental := max 0 (mental s - 5)\<rparr>)"

definition extraPressureOf :: "real \<Rightarrow> real \<Rightarrow> real \<Rightarrow> real" where
  "extraPressureOf totalMax baseline score =
     (if totalMax > 0 then
        let scoreBelow = max 0 (baseline - js_or (Some score) 0);
            unit = max 1 (totalMax / 20)
        in min 15 (of_int \<lceil>scoreBelow / unit\<rceil>)
      else 0)"

text \<open>The condition under which the extra pressure and its remark are recorded.\<close>

definition poorShowing :: "bool \<Rightarrow> real \<Rightarrow> real \<Rightarrow> real \<Rightarrow> real \<Rightarrow> bool" where
  "poorShowing passed baseline minScore score extraPressure =
     ((\<not> passed \<or> (baseline > 0 \<and> js_or (Some score) 0 < baseline)
         \<or> js_or (Some score) 0 = minScore)
      \<and> extraPressure > 0)"

definition medalOf :: "string \<Rightarrow> real option \<Rightarrow> real \<Rightarrow> real \<Rightarrow> medal option" where
  "medalOf compName statePassLine passLine score =
     (if compName = ''NOI'' then
        let pl = js_or statePassLine (js_or (Some passLine) 0);
            scoreNum = js_or (Some score) 0
        in if scoreNum \<ge> pl * 1 then Some gold
           else if scoreNum \<ge> pl * (7 / 10) then Some silver
           else if scoreNum \<ge> pl * (5 / 10) then Some bronze
           else None
      else None)"

text \<open>One turn of \<open>for(let state of studentStates)\<close>. The class \<open>Student\<close> of
  \<open>script.js\<close> has no \<open>triggerTalents\<close>, so that guarded call does nothing. The
  competitor is an object shared with the roster; the model keeps the updated competitor
  in the result.\<close>

definition resultFor ::
  "env \<Rightarrow> string \<Rightarrow> real \<Rightarrow> real \<Rightarrow> real \<Rightarrow> real \<Rightarrow> studentState \<Rightarrow> result" where
  "resultFor e compName passLine totalMax baseline minScore state =
     (let score = totalScore state;
          passed = (score \<ge> passLine);
          s = basePressureUpdate e passed (st_student state);
          extraPressure = extraPressureOf totalMax baseline score;
          flagged = poorShowing passed baseline minScore score extraPressure
      in \<lparr>r_student = s, r_score = Some score, r_passed = passed,
          r_medal = medalOf compName (st_passLine state) passLine score,
          r_extraPressure = (if flagged then extraPressure else 0),
          r_remark = (if flagged then PoorShowing extraPressure else NoRemark),
          r_notParticipated = False\<rparr>)"

definition notParticipatedResult :: "student \<Rightarrow> result" where
  "notParticipatedResult s =
     \<lparr>r_student = s, r_score = None, r_passed = False, r_medal = None,
      r_extraPressure = 0, r_remark = NotQualified, r_notParticipated = True\<rparr>"

definition passLineOf :: "env \<Rightarrow> game \<Rightarrow> studentState list \<Rightarrow> config \<Rightarrow> comp \<Rightarrow> real" where
  "passLineOf e g states cfg cmp =
     calculatePassLine e (rev (sort (map totalScore states)))
       (getPassRateForCompetition e g (comp_name cmp)) (totalMaxOf cfg cmp) (comp_name cmp)"

text \<open>The list \<open>results\<close> as it stands before \<open>updateQualifications\<close> is called.\<close>

definition contestResults ::
  "env \<Rightarrow> game \<Rightarrow> studentState list \<Rightarrow> config \<Rightarrow> comp \<Rightarrow> student list \<Rightarrow> result list" where
  "contestResults e g states cfg cmp ineligible =
     (let scores = rev (sort (map totalScore states));
          totalMax = totalMaxOf cfg cmp;
          passLine = passLineOf e g states cfg cmp;
          baseline = (if totalMax > 0 then totalMax / 2 else 0);
          minScore = minOf scores
      in map (resultFor e (comp_name cmp) passLine totalMax baseline minScore) states
         @ map notParticipatedResult ineligible)"

subsection \<open>Recording who advanced (\<open>updateQualifications\<close>)\<close>

definition passedNames :: "result list \<Rightarrow> string list" where
  "passedNames results =
     map (\<lambda>r. name (r_student r)) (filter (\<lambda>r. r_passed r \<and> \<not> r_notParticipated r) results)"

definition updateQualifications :: "env \<Rightarrow> result list \<Rightarrow> string \<Rightarrow> game \<Rightarrow> game" where
  "updateQualifications e results compName g =
     (case qualification g of
        None \<Rightarrow> g
      | Some q \<Rightarrow>
          if indexOf (compOrder e) compName < 0 then g
          else
            let seasonIdx = halfIndex e g;
                qualified = (case q (seasonIdx, compName) of None \<Rightarrow> {} | Some names \<Rightarrow> names)
            in g\<lparr>qualification :=
                   Some (q((seasonIdx, compName) \<mapsto> qualified \<union> set (passedNames results)))\<rparr>)"

subsection \<open>Rewards (\<open>distributeRewards\<close>)\<close>

text \<open>The reward of one competitor who passed; \<open>r\<close> is the value of \<open>Math.random()\<close>
  inside \<open>uniformInt\<close>. A contest outside the four named ones pays nothing.\<close>

definition rewardOf :: "env \<Rightarrow> string \<Rightarrow> real \<Rightarrow> real" where
  "rewardOf e compName r =
     (if compName = ''NOI'' then
        (if window_fun e ''uniformInt''
         then uniformInt r (js_or (window_num e ''NOI_REWARD_MIN'') 30000)
                (js_or (window_num e ''NOI_REWARD_MAX'') 50000)
         else 40000)
      else if compName = ''NOIP'' then
        (if window_fun e ''uniformInt''
         then uniformInt r (js_or (window_num e ''NOIP_REWARD_MIN'') 10000)
                (js_or (window_num e ''NOIP_REWARD_MAX'') 20000)
         else 15000)
      else if compName = ''CSP-S2'' then
        (if window_fun e ''uniformInt''
         then uniformInt r (js_or (window_num e ''CSP_S2_REWARD_MIN'') 4000)
                (js_or (window_num e ''CSP_S2_REWARD_MAX'') 8000)
         else 6000)
      else if compName = ''CSP-S1'' then
        (if window_fun e ''uniformInt''
         then uniformInt r (js_or (window_num e ''CSP_S1_REWARD_MIN'') 2000)
                (js_or (window_num e ''CSP_S1_REWARD_MAX'') 5000)
         else 3000)
      else 0)"

text \<open>The loop over the results; \<open>rnd i\<close> is the \<open>i\<close>-th value of \<open>Math.random()\<close>.\<close>

fun rewardLoop :: "env \<Rightarrow> string \<Rightarrow> (nat \<Rightarrow> real) \<Rightarrow> nat \<Rightarrow> real \<Rightarrow> result list \<Rightarrow> real" where
  "rewardLoop e compName rnd i totalReward [] = totalReward"
| "rewardLoop e compName rnd i totalReward (r # rs) =
     (if \<not> r_passed r \<or> r_notParticipated r then rewardLoop e compName rnd i totalReward rs
      else rewardLoop e compName rnd (Suc i) (totalReward + rewardOf e compName (rnd i)) rs)"

text \<open>
  The block that marks the funding as issued. It reads \<open>halfBoundary_ui\<close>, a \<open>const\<close>
  declared inside the first \<open>try\<close> block of the function and so out of scope here: the
  read goes to the global scope, and throws a ReferenceError when no global of that name
  exists.
\<close>

definition markFundingIssued :: "env \<Rightarrow> string \<Rightarrow> game \<Rightarrow> js_error + game" where
  "markFundingIssued e compName g =
     (case globals e ''halfBoundary_ui'' of
        None \<Rightarrow> Inl ReferenceError
      | Some halfBoundary_ui \<Rightarrow>
          let hIndex = (if week g > halfBoundary_ui then 1 else 0);
              fundingKey = (hIndex, compName, week g)
          in Inr (g\<lparr>fundingIssued := insert fundingKey (fundingIssued g)\<rparr>))"

text \<open>\<open>distributeRewards\<close> returns the total reward and the new game and trace. The
  \<open>try\<close> around the marking block swallows its error and leaves the game as it is.\<close>

fun distributeRewards ::
  "env \<Rightarrow> (nat \<Rightarrow> real) \<Rightarrow> result list \<Rightarrow> string \<Rightarrow> game \<times> action list
     \<Rightarrow> real \<times> game \<times> action list" where
  "distributeRewards e rnd results compName (g, tr) =
     (let fundingKey = (halfIndex e g, compName, week g)
      in if fundingKey \<in> fundingIssued g then (0, g, tr)
         else
           let totalReward = rewardLoop e compName rnd 0 0 results
           in if totalReward > 0 then
                let g1 = g\<lparr>budget := budget g + totalReward\<rparr>;
                    tr1 = (if window_fun e ''pushEvent''
                           then tr @ [PushEvent event_funding] else tr);
                    g2 = (case markFundingIssued e compName g1 of
                            Inl err \<Rightarrow> g1 | Inr marked \<Rightarrow> marked)
                in (totalReward, g2, tr1)
              else (totalReward, g, tr))"

subsection \<open>Handling the results of a formal contest (\<open>handleCompetitionResults\<close>)\<close>

definition applyExtraPressure :: "env \<Rightarrow> result \<Rightarrow> result" where
  "applyExtraPressure e r =
     (if r_notParticipated r then r
      else
        let ep = r_extraPressure r;
            pressureMult = globalOr e ''PRESSURE_INCREASE_MULTIPLIER'' 1
        in if ep > 0 then
             let s = r_student r;
                 epApplied = ep * 2 * pressureMult
             in r\<lparr>r_student := s\<lparr>pressure := min 100 (pressure s + epApplied)\<rparr>\<rparr>
           else r)"

definition countPassed :: "result list \<Rightarrow> nat" where
  "countPassed results = length (filter (\<lambda>r. \<not> r_notParticipated r \<and> r_passed r) results)"

fun rankedEntries :: "nat \<Rightarrow> result list \<Rightarrow> career_entry list" where
  "rankedEntries idx [] = []"
| "rankedEntries idx (r # rs) =
     \<lparr>ce_name = name (r_student r), ce_rank = Some (idx + 1), ce_score = r_score r,
      ce_passed = r_passed r, ce_eligible = None, ce_medal = r_medal r,
      ce_remark = r_remark r\<rparr> # rankedEntries (Suc idx) rs"

text \<open>The function returns nothing; the model returns the results list next to the
  game and the trace, since the competitors it updated are in there.\<close>

fun handleCompetitionResults ::
  "env \<Rightarrow> (nat \<Rightarrow> real) \<Rightarrow> studentState list \<Rightarrow> config \<Rightarrow> comp \<Rightarrow> student list
     \<Rightarrow> game \<times> action list \<Rightarrow> result list \<times> game \<times> action list" where
  "handleCompetitionResults e rnd states cfg originalComp ineligible (g, tr) =
     (let results = contestResults e g states cfg originalComp ineligible;
          g1 = updateQualifications e results (comp_name originalComp) g;
          hIndex = halfIndex e g1;
          passedCount = countPassed results
      in if hIndex = 1 \<and> passedCount = 0 then
           (results, signalChainBroken e (g1, tr))
         else
           let results1 = map (applyExtraPressure e) results;
               (totalReward, g2, tr2) =
                 distributeRewards e rnd results1 (comp_name originalComp) (g1, tr);
               tr3 = tr2 @ [ShowDetailedResults totalReward];
               g3 = g2\<lparr>completedCompetitions :=
                        insert (hIndex, comp_name originalComp, comp_week originalComp)
                          (completedCompetitions g2)\<rparr>;
               participants = filter (\<lambda>r. \<not> r_notParticipated r) results1;
               g4 = g3\<lparr>careerCompetitions := careerCompetitions g3 @
                        [\<lparr>c_week = week g3, c_name = comp_name originalComp,
                          c_passedCount = passedCount,
                          c_totalStudents = length participants,
                          c_entries = rankedEntries 0 participants\<rparr>]\<rparr>;
               tr4 = (if window_fun e ''saveGame'' then tr3 @ [SaveGame] else tr3);
               tr5 = (if window_fun e ''renderAll'' then tr4 @ [RenderAll] else tr4)
           in (results1, g4, tr5))"

subsection \<open>The medals of the older contest screen (\<open>holdCompetitionModal\<close>)\<close>

text \<open>The chain of comparisons \<open>holdCompetitionModal\<close> uses for the medal it prints in
  the remark and counts when the results are applied: fractions of the contest's maximum
  score.\<close>

definition province_normal :: string where
  "province_normal = [CHR 0xE6, CHR 0x99, CHR 0xAE, CHR 0xE9, CHR 0x80, CHR 0x9A, CHR 0xE7,
                      CHR 0x9C, CHR 0x81]"

text \<open>The pass line of \<open>holdCompetitionModal\<close>; \<open>compData\<close> tells whether the contest
  was found in the list \<open>competitions\<close>.\<close>

definition legacyPassLine :: "bool \<Rightarrow> string \<Rightarrow> string \<Rightarrow> real \<Rightarrow> real \<Rightarrow> real" where
  "legacyPassLine compData province compName compMaxScore reputation =
     (let base_pass_line =
            (if compData then
               let base_rate = (if province = province_strong then 65 / 100
                                else if province = province_normal then 5 / 10
                                else 4 / 10);
                   base_rate = (if compName = name_provincial then base_rate + 2 / 10
                                else base_rate)
               in compMaxScore * base_rate
             else 0);
          dynamic_factor = 1 - (reputation - 50) * (1 / 100)
      in of_int \<lfloor>base_pass_line * dynamic_factor\<rfloor>)"

definition legacyMedal :: "string \<Rightarrow> real \<Rightarrow> real \<Rightarrow> medal option" where
  "legacyMedal compName compMaxScore rtotal =
     (if compName = ''NOI'' then
        (if rtotal \<ge> compMaxScore * NOI_GOLD_THRESHOLD then Some gold
         else if rtotal \<ge> compMaxScore * NOI_SILVER_THRESHOLD then Some silver
         else if rtotal \<ge> compMaxScore * NOI_BRONZE_THRESHOLD then Some bronze
         else None)
      else None)"

subsection \<open>Training, the weekly update and the older contest screens (\<open>script.js\<close>)\<close>

definition COMPUTER_EFFICIENCY_PER_LEVEL :: real where "COMPUTER_EFFICIENCY_PER_LEVEL = 7 / 100"
definition LIBRARY_EFFICIENCY_PER_LEVEL :: real where "LIBRARY_EFFICIENCY_PER_LEVEL = 6 / 100"
definition CANTEEN_PRESSURE_REDUCTION_PER_LEVEL :: real where
  "CANTEEN_PRESSURE_REDUCTION_PER_LEVEL = 6 / 100"
definition DORM_COMFORT_BONUS_PER_LEVEL :: real where "DORM_COMFORT_BONUS_PER_LEVEL = 55 / 10"
definition AC_COMFORT_BONUS_PER_LEVEL :: real where "AC_COMFORT_BONUS_PER_LEVEL = 9"
definition EXTREME_COLD_THRESHOLD :: real where "EXTREME_COLD_THRESHOLD = 5"
definition EXTREME_HOT_THRESHOLD :: real where "EXTREME_HOT_THRESHOLD = 35"
definition WEATHER_PENALTY_NO_AC :: real where "WEATHER_PENALTY_NO_AC = 20"
definition WEATHER_PENALTY_WITH_AC :: real where "WEATHER_PENALTY_WITH_AC = 10"
definition TRAINING_BASE_KNOWLEDGE_GAIN_PER_INTENSITY :: real where
  "TRAINING_BASE_KNOWLEDGE_GAIN_PER_INTENSITY = 4"
definition TRAINING_THINKING_GAIN_MIN :: real where "TRAINING_THINKING_GAIN_MIN = 6 / 10"
definition TRAINING_CODING_GAIN_MIN :: real where "TRAINING_CODING_GAIN_MIN = 6 / 10"
definition TRAINING_PRESSURE_MULTIPLIER_MEDIUM :: real where
  "TRAINING_PRESSURE_MULTIPLIER_MEDIUM = 15 / 10"
definition TRAINING_PRESSURE_MULTIPLIER_HEAVY :: real where
  "TRAINING_PRESSURE_MULTIPLIER_HEAVY = 25 / 10"
definition COMPOSITE_TRAINING_PRESSURE_BONUS :: real where
  "COMPOSITE_TRAINING_PRESSURE_BONUS = 12 / 10"
definition MOCK_CONTEST_GAIN_MULTIPLIER_PURCHASED :: real where
  "MOCK_CONTEST_GAIN_MULTIPLIER_PURCHASED = 18 / 10"

text \<open>The fields of \<open>GameState\<close> and of its \<open>Facilities\<close> that training and the weekly
  update read.\<close>

record campus =
  temperature :: real
  base_comfort :: real
  computer :: real
  ac :: real
  dorm :: real
  library :: real
  canteen :: real

definition getComputerEfficiency :: "campus \<Rightarrow> real" where
  "getComputerEfficiency c = 1 + COMPUTER_EFFICIENCY_PER_LEVEL * (computer c - 1)"

definition getLibraryEfficiency :: "campus \<Rightarrow> real" where
  "getLibraryEfficiency c = 1 + LIBRARY_EFFICIENCY_PER_LEVEL * (library c - 1)"

definition getCanteenPressureReduction :: "campus \<Rightarrow> real" where
  "getCanteenPressureReduction c = 1 - CANTEEN_PRESSURE_REDUCTION_PER_LEVEL * (canteen c - 1)"

definition getDormComfortBonus :: "campus \<Rightarrow> real" where
  "getDormComfortBonus c = DORM_COMFORT_BONUS_PER_LEVEL * (dorm c - 1)"

definition extreme_temp :: "campus \<Rightarrow> bool" where
  "extreme_temp c =
     (temperature c < EXTREME_COLD_THRESHOLD \<or> temperature c > EXTREME_HOT_THRESHOLD)"

definition getWeatherFactor :: "campus \<Rightarrow> real" where
  "getWeatherFactor c =
     (if extreme_temp c then
        (if ac c = 1 \<and> dorm c = 1 then 2 else if ac c = 1 then 15 / 10 else 1)
      else 1)"

definition getComfort :: "campus \<Rightarrow> real" where
  "getComfort c =
     (let cmf = base_comfort c + getDormComfortBonus c
                + AC_COMFORT_BONUS_PER_LEVEL * (ac c - 1) + 3 * (canteen c - 1);
          weather_penalty =
            (if extreme_temp c
             then (if ac c = 1 then WEATHER_PENALTY_NO_AC else WEATHER_PENALTY_WITH_AC)
             else 0)
      in clamp (cmf - weather_penalty) 0 100)"

definition calculateKnowledgeGain :: "student \<Rightarrow> real \<Rightarrow> real \<Rightarrow> real \<Rightarrow> real" where
  "calculateKnowledgeGain s base_gain facility_bonus sick_penalty =
     (let learning_efficiency =
            (6 / 10 * (thinking s / 100) + 4 / 10) * (1 - pressure s / FATIGUE_FROM_PRESSURE)
      in of_int \<lfloor>base_gain * learning_efficiency * facility_bonus * sick_penalty\<rfloor>)"

text \<open>The pressure a training adds to one competitor.\<close>

definition pressure_increase :: "campus \<Rightarrow> string \<Rightarrow> real \<Rightarrow> student \<Rightarrow> real" where
  "pressure_increase c topic intensity s =
     (let comfort_factor = 1 + max 0 ((50 - getComfort c) / 100);
          base_pressure = (if intensity = 1 then 10 else if intensity = 2 then 20 else 30);
          base_pressure =
            (if intensity = 3 then base_pressure * TRAINING_PRESSURE_MULTIPLIER_HEAVY
             else if intensity = 2 then base_pressure * TRAINING_PRESSURE_MULTIPLIER_MEDIUM
             else base_pressure);
          base_pressure =
            (if topic = tag_composite then base_pressure * COMPOSITE_TRAINING_PRESSURE_BONUS
             else base_pressure);
          increase = base_pressure * getWeatherFactor c * getCanteenPressureReduction c
                       * comfort_factor
      in if sick_weeks s > 0 then increase + 10 else increase)"

text \<open>
  The body of the loop of \<open>trainStudents\<close> for one active competitor; \<open>u1\<close> and \<open>u2\<close>
  are the values of \<open>Math.random()\<close> behind the first and the second draw of the
  topic's branch. \<open>trainGains\<close> is the chain of branches on the topic, which adds the
  knowledge and the thinking and coding gains.
\<close>

definition trainGains ::
  "campus \<Rightarrow> string \<Rightarrow> real \<Rightarrow> real \<Rightarrow> real \<Rightarrow> student \<Rightarrow> student" where
  "trainGains c topic intensity u1 u2 s =
     (let sick_penalty = (if sick_weeks s > 0 then 7 / 10 else 1);
          base_gain = intensity * TRAINING_BASE_KNOWLEDGE_GAIN_PER_INTENSITY;
          knowledge_gain =
            max 0 (calculateKnowledgeGain s base_gain (getLibraryEfficiency c) sick_penalty);
          damp = 1 - min (6 / 10) (pressure s / 200);
          tmin = TRAINING_THINKING_GAIN_MIN;
          cmin = TRAINING_CODING_GAIN_MIN
      in if topic = tag_ds then
           s\<lparr>knowledge_ds := knowledge_ds s + knowledge_gain,
             thinking := thinking s + uniform u1 tmin (tmin + 1) * damp,
             coding := coding s + uniform u2 cmin (cmin + 1) * damp\<rparr>
         else if topic = tag_graph then
           s\<lparr>knowledge_graph := knowledge_graph s + knowledge_gain,
             thinking := thinking s + uniform u1 (tmin + 4 / 10) (tmin + 14 / 10) * damp\<rparr>
         else if topic = tag_string then
           s\<lparr>knowledge_string := knowledge_string s + knowledge_gain,
             coding := coding s + uniform u1 (cmin + 6 / 10) (cmin + 16 / 10) * damp\<rparr>
         else if topic = tag_math then
           s\<lparr>knowledge_math := knowledge_math s + knowledge_gain,
             thinking := thinking s + uniform u1 (tmin + 1) (tmin + 2) * damp\<rparr>
         else if topic = ''DP'' then
           s\<lparr>knowledge_dp := knowledge_dp s + knowledge_gain,
             thinking := thinking s + uniform u1 (tmin + 8 / 10) (tmin + 14 / 10) * damp\<rparr>
         else if topic = tag_composite then
           (let avg_gain = max 1 (of_int \<lfloor>knowledge_gain * (25 / 100)\<rfloor>);
                computer_eff = getComputerEfficiency c
            in s\<lparr>knowledge_ds := knowledge_ds s + avg_gain,
                 knowledge_graph := knowledge_graph s + avg_gain,
                 knowledge_string := knowledge_string s + avg_gain,
                 knowledge_math := knowledge_math s + avg_gain,
                 knowledge_dp := knowledge_dp s + avg_gain,
                 thinking := thinking s
                   + uniform u1 tmin (tmin + 6 / 10) * computer_eff * damp,
                 coding := coding s
                   + uniform u2 cmin (cmin + 6 / 10) * computer_eff * damp\<rparr>)
         else s)"

text \<open>After the gains, thinking and coding are cut at 100; the pressure is added as it
  is.\<close>

definition trainStudent ::
  "campus \<Rightarrow> string \<Rightarrow> real \<Rightarrow> real \<Rightarrow> real \<Rightarrow> student \<Rightarrow> student" where
  "trainStudent c topic intensity u1 u2 s0 =
     (let s = trainGains c topic intensity u1 u2 (s0\<lparr>comfort := getComfort c\<rparr>);
          s = s\<lparr>thinking := min 100 (thinking s)\<rparr>;
          s = s\<lparr>coding := min 100 (coding s)\<rparr>
      in s\<lparr>pressure := pressure s + pressure_increase c topic intensity s\<rparr>)"

text \<open>\<open>applyForgetting\<close> inside \<open>weeklyUpdate\<close>, and the update of one active
  competitor over \<open>weeks\<close> weeks: a week of sickness is counted down, the knowledge
  is forgotten, and the pressure recovers and is brought back into [0, 100].\<close>

definition applyForgetting :: "nat \<Rightarrow> real \<Rightarrow> real" where
  "applyForgetting weeks knowledge =
     (if knowledge \<le> 0 then 0
      else
        let forget_rate = KNOWLEDGE_FORGET_RATE;
            forget_rate = (if knowledge > 50 then 1 - (1 - forget_rate) * (5 / 10)
                           else forget_rate);
            new_val = of_int \<lfloor>knowledge * forget_rate ^ weeks\<rfloor>
        in max new_val (of_int \<lfloor>knowledge * (8 / 10)\<rfloor>))"

definition weeklyStudent :: "campus \<Rightarrow> nat \<Rightarrow> student \<Rightarrow> student" where
  "weeklyStudent c weeks s00 =
     (let s0 = (if sick_weeks s00 > 0 then s00\<lparr>sick_weeks := sick_weeks s00 - 1\<rparr> else s00);
          s = s0\<lparr>knowledge_ds := applyForgetting weeks (knowledge_ds s0),
                 knowledge_graph := applyForgetting weeks (knowledge_graph s0),
                 knowledge_string := applyForgetting weeks (knowledge_string s0),
                 knowledge_math := applyForgetting weeks (knowledge_math s0),
                 knowledge_dp := applyForgetting weeks (knowledge_dp s0)\<rparr>;
          pressure_recovery = RECOVERY_RATE * (getComfort c / 100) * of_nat weeks;
          s = s\<lparr>pressure := max 0 (pressure s - pressure_recovery)\<rparr>
      in s\<lparr>pressure := min 100 (pressure s)\<rparr>)"

text \<open>
  Applying a mock contest of the older screen (\<open>holdMockContestModal\<close>, the handler of
  the apply button) to one active competitor. \<open>rtotal\<close> is the total score; \<open>probs\<close>
  holds, for each of the four problems, its tags, the competitor's score and the value
  of \<open>Math.random()\<close> of its knowledge draw; \<open>um\<close> is the one of the mental draw.
\<close>

definition mock_pressure_gain :: "real \<Rightarrow> real" where
  "mock_pressure_gain rtotal =
     (if rtotal < 100 then 30 else if rtotal < 200 then 20 else if rtotal \<le> 300 then 10
      else 16)"

definition mock_mental_change :: "real \<Rightarrow> real \<Rightarrow> real" where
  "mock_mental_change um rtotal =
     (if rtotal < 100 then uniform um (- 16) (- 6)
      else if rtotal < 200 then uniform um (- 2) 4
      else if rtotal \<le> 300 then uniform um 6 16
      else uniform um 2 6)"

definition overall_score_factor :: "real \<Rightarrow> real" where
  "overall_score_factor rtotal =
     (if rtotal < 100 then 3 / 10 else if rtotal < 200 then 7 / 10
      else if rtotal \<le> 300 then 1 else 6 / 10)"

definition mockProblemGain ::
  "bool \<Rightarrow> real \<Rightarrow> student \<Rightarrow> string list \<times> real \<times> real \<Rightarrow> student" where
  "mockProblemGain isPurchased rtotal s p =
     (case p of (tgs, problem_score, uk) \<Rightarrow>
        let mult = (if isPurchased then MOCK_CONTEST_GAIN_MULTIPLIER_PURCHASED else 1);
            base_knowledge_min = of_int \<lfloor>2 * mult\<rfloor>;
            base_knowledge_max = of_int \<lfloor>6 * mult\<rfloor>;
            problem_score_factor = js_or (Some problem_score) 0 / 100;
            growth_factor = problem_score_factor * (7 / 10)
                              + overall_score_factor rtotal * (3 / 10);
            knowledge_gain =
              (max 0 (of_int \<lfloor>uniform uk base_knowledge_min base_knowledge_max
                                 * growth_factor\<rfloor>) :: real)
        in if length tgs > 0 then
             (let per = of_int \<lfloor>knowledge_gain / of_nat (length tgs)\<rfloor>
              in foldl (\<lambda>st t. addKnowledge st t per) s tgs)
           else s)"

definition mockApplyStudent ::
  "bool \<Rightarrow> real \<Rightarrow> (string list \<times> real \<times> real) list \<Rightarrow> real \<Rightarrow> student \<Rightarrow> student" where
  "mockApplyStudent isPurchased rtotal probs um s0 =
     (let s = foldl (mockProblemGain isPurchased rtotal) s0 probs;
          s = s\<lparr>mental := clamp (mental s + mock_mental_change um rtotal) 0 100\<rparr>
      in s\<lparr>pressure := pressure s + mock_pressure_gain rtotal\<rparr>)"

text \<open>
  Applying a formal contest of the older screen (\<open>holdCompetitionModal\<close>, the handler
  of the apply button) to one active competitor. \<open>found\<close> is the total of the first
  result with the competitor's name, if there is one; \<open>up\<close> and \<open>um\<close> are the values of
  \<open>Math.random()\<close> of the pressure and the mental draw. Nothing is clamped.
\<close>

definition compApplyStudent ::
  "string \<Rightarrow> real \<Rightarrow> real option \<Rightarrow> real \<Rightarrow> real \<Rightarrow> student \<Rightarrow> student" where
  "compApplyStudent compName compMaxScore found up um s =
     (if compName = ''NOI'' then
        (let s1 = s\<lparr>pressure := pressure s + 40\<rparr>
         in case found of
              None \<Rightarrow> s1
            | Some rtotal \<Rightarrow>
                if rtotal \<ge> compMaxScore * NOI_SILVER_THRESHOLD
                then s1\<lparr>mental := mental s1 + uniform um (- 5) 5\<rparr>
                else s1\<lparr>mental := mental s1 + uniform um (- 15) (- 5)\<rparr>)
      else if compName = name_provincial then
        s\<lparr>pressure := pressure s + uniform up 20 35, mental := mental s + uniform um (- 5) 5\<rparr>
      else if compName = ''NOIP'' then s\<lparr>pressure := pressure s + uniform up 15 25\<rparr>
      else s\<lparr>pressure := pressure s + uniform up 5 10\<rparr>)"

definition sample_campus :: campus where
  "sample_campus =
     \<lparr>temperature = 20, base_comfort = 50, computer = 1, ac = 1, dorm = 1, library = 1,
      canteen = 1\<rparr>"

subsection \<open>Notions used to state the properties\<close>

text \<open>The game as \<open>holdCompetitionModalNew\<close> has written it when nobody is eligible in
  the second half-season, at the moment it goes on to signal the ending.\<close>

definition skippedGame :: "game \<Rightarrow> comp \<Rightarrow> game" where
  "skippedGame g cmp =
     g\<lparr>qualification := Some (ledger g),
       completedCompetitions :=
         insert (1, comp_name cmp, comp_week cmp) (completedCompetitions g),
       careerCompetitions := careerCompetitions g @ [skippedRecord g cmp]\<rparr>"

subsection \<open>Sample inputs\<close>

definition sample_able :: student where
  "sample_able =
     \<lparr>name = ''A'', thinking = 100, coding = 100, mental = 100, knowledge_ds = 0,
      knowledge_graph = 0, knowledge_string = 0, knowledge_math = 0, knowledge_dp = 0,
      pressure = 0, comfort = 50, active = True, sick_weeks = 0\<rparr>"

definition sample_learned :: student where
  "sample_learned =
     \<lparr>name = ''B'', thinking = 0, coding = 0, mental = 0, knowledge_ds = 100,
      knowledge_graph = 100, knowledge_string = 100, knowledge_math = 100,
      knowledge_dp = 100, pressure = 0, comfort = 50, active = True, sick_weeks = 0\<rparr>"

definition sample_student :: student where
  "sample_student =
     \<lparr>name = ''C'', thinking = 50, coding = 50, mental = 50, knowledge_ds = 3,
      knowledge_graph = 1, knowledge_string = 0, knowledge_math = 2, knowledge_dp = 0,
      pressure = 95, comfort = 50, active = True, sick_weeks = 0\<rparr>"

definition sample_p1 :: problem where
  "sample_p1 = \<lparr>maxScore = 100, actualScore = 30, thinkingBase = Some 40,
                 codingBase = None, tags = [tag_ds, tag_graph, tag_ds]\<rparr>"

definition sample_p2 :: problem where
  "sample_p2 = \<lparr>maxScore = 100, actualScore = 70, thinkingBase = None,
                 codingBase = Some 60, tags = [tag_math]\<rparr>"

definition sample_p3 :: problem where
  "sample_p3 = \<lparr>maxScore = 100, actualScore = 70, thinkingBase = Some 0,
                 codingBase = None, tags = [''DP'', tag_string]\<rparr>"


text \<open>An environment as the two scripts set it up: \<open>SEASON_WEEKS\<close> is declared, no
  \<open>WEEKS_PER_HALF\<close> and no global \<open>halfBoundary_ui\<close>; \<open>uniformInt\<close> and a unified ending
  function are there.\<close>

definition sample_env :: env where
  "sample_env =
     \<lparr>globals = (\<lambda>x. if x = ''SEASON_WEEKS'' then Some 52 else None),
      window_num = (\<lambda>x. None),
      window_fun = (\<lambda>f. f = ''uniformInt'' \<or> f = ''triggerGameEnding''),
      COMPETITION_ORDER = None\<rparr>"

definition sample_game :: game where
  "sample_game =
     \<lparr>students = [Some sample_student, None, Some sample_able],
      week = 10, budget = 100000, province_type = province_normal,
      qualification = Some ((\<lambda>k. None)((0, ''CSP-S1'') \<mapsto> {''A''})),
      completedCompetitions = {}, careerCompetitions = [],
      fundingIssued = {}, seasonEndTriggered = False\<rparr>"

definition sample_late_game :: game where
  "sample_late_game =
     \<lparr>students = [Some sample_student, None, Some sample_able],
      week = 30, budget = 100000, province_type = province_normal,
      qualification = None, completedCompetitions = {}, careerCompetitions = [],
      fundingIssued = {}, seasonEndTriggered = False\<rparr>"

definition sample_noip :: comp where
  "sample_noip = \<lparr>comp_name = ''NOIP'', comp_week = Some 30, comp_maxScore = Some 400\<rparr>"

definition sample_csp1 :: comp where
  "sample_csp1 = \<lparr>comp_name = ''CSP-S1'', comp_week = Some 30, comp_maxScore = Some 100\<rparr>"

definition sample_config :: config where
  "sample_config =
     \<lparr>cfg_name = ''CSP-S1'', cfg_problems = Some [sample_p1, sample_p2, sample_p3]\<rparr>"

definition sample_states :: "studentState list" where
  "sample_states =
     [\<lparr>st_student = sample_student, totalScore = 10, st_passLine = None\<rparr>,
      \<lparr>st_student = sample_able, totalScore = 150, st_passLine = None\<rparr>]"

definition sample_weak_states :: "studentState list" where
  "sample_weak_states =
     [\<lparr>st_student = sample_student, totalScore = 10, st_passLine = None\<rparr>]"

definition sample_results :: "result list" where
  "sample_results =
     [\<lparr>r_student = sample_able, r_score = Some 100, r_passed = True, r_medal = None,
       r_extraPressure = 0, r_remark = NoRemark, r_notParticipated = False\<rparr>]"

text \<open>The final stage with two participants, in the first half-season.\<close>

definition sample_noi :: comp where
  "sample_noi = \<lparr>comp_name = ''NOI'', comp_week = Some 10, comp_maxScore = Some 300\<rparr>"

definition sample_noi_states :: "studentState list" where
  "sample_noi_states =
     [\<lparr>st_student = sample_student, totalScore = 168, st_passLine = None\<rparr>,
      \<lparr>st_student = sample_able, totalScore = 240, st_passLine = None\<rparr>]"

section \<open>Verified properties\<close>

subsection \<open>Facts about the arithmetic of doubles\<close>












subsection \<open>Facts about the allocator\<close>










lemmas sample_problem_defs = sample_p1_def sample_p2_def sample_p3_def














subsection \<open>The composite ability\<close>

lemmas ability_defs =
  getComprehensiveAbility_def getAbilityAvg_def getKnowledgeTotal_def ABILITY_WEIGHT_def
  KNOWLEDGE_WEIGHT_def

text \<open>
  Claim C5, as the code has it. The composite ability is the weighted average of the
  mean of thinking, coding and mental and of the mean of the five knowledge axes; the
  weights are fixed, 0.4 for the abilities and 0.6 for the knowledge, so the knowledge
  weight is the strictly greater one.
\<close>

theorem getComprehensiveAbility_weights:
  "getComprehensiveAbility s =
     ABILITY_WEIGHT * ((thinking s + coding s + mental s) / 3)
     + KNOWLEDGE_WEIGHT * ((knowledge_ds s + knowledge_graph s + knowledge_string s
                             + knowledge_math s + knowledge_dp s) / 5)
   \<and> ABILITY_WEIGHT = 4 / 10 \<and> KNOWLEDGE_WEIGHT = 6 / 10
   \<and> ABILITY_WEIGHT + KNOWLEDGE_WEIGHT = 1 \<and> ABILITY_WEIGHT < KNOWLEDGE_WEIGHT"
  by (simp add: ability_defs)

text \<open>Claim C5 as the specification words it fails: the ability weight is not the
  greater one. A competitor with full abilities and no knowledge has the composite 40,
  one with no abilities and every knowledge axis at 100 has 60.\<close>

theorem composite_weights_counterexample:
  "\<not> (ABILITY_WEIGHT > KNOWLEDGE_WEIGHT)
   \<and> getComprehensiveAbility sample_able = 40
   \<and> getComprehensiveAbility sample_learned = 60"
  by (simp add: ability_defs sample_able_def sample_learned_def)

subsection \<open>The performance score\<close>

lemma final_ratio_range: "0 \<le> final_ratio s d k z1 z2 \<and> final_ratio s d k z1 z2 \<le> 1"
  by (simp add: final_ratio_def clamp_def Let_def)

lemma getPerformanceScore_eq:
  "0 \<le> m \<Longrightarrow> getPerformanceScore s d m k z1 z2 = final_ratio s d k z1 z2 * m"
  using final_ratio_range[of s d k z1 z2] by (simp add: getPerformanceScore_def)

lemma getPerformanceScore_range:
  assumes m: "0 \<le> m"
  shows "0 \<le> getPerformanceScore s d m k z1 z2 \<and> getPerformanceScore s d m k z1 z2 \<le> m"
proof -
  have r: "0 \<le> final_ratio s d k z1 z2" "final_ratio s d k z1 z2 \<le> 1"
    using final_ratio_range[of s d k z1 z2] by auto
  have "final_ratio s d k z1 z2 * m \<le> m" using mult_left_le_one_le[OF m r] .
  moreover have "0 \<le> final_ratio s d k z1 z2 * m" using m r by simp
  ultimately show ?thesis by (simp add: getPerformanceScore_def)
qed

lemma round_of_int: "\<lfloor>(of_int n :: real) + 1 / 2\<rfloor> = n"
  by linarith

lemma problemScore_eq:
  "problemScore s tgs d z1 z2 =
     of_int (10 * (\<lfloor>final_ratio s d (avgK s tgs) z1 z2 * 100\<rfloor> div 10))"
proof -
  let ?f = "final_ratio s d (avgK s tgs) z1 z2"
  let ?n = "\<lfloor>?f * 100\<rfloor>"
  have r: "0 \<le> ?f" "?f \<le> 1" using final_ratio_range by auto
  have n0: "0 \<le> ?n" using r by simp
  have n1: "?n \<le> 100" using r by (simp add: floor_le_iff)
  have fl: "\<lfloor>(of_int ?n :: real) / 10\<rfloor> = ?n div 10"
    by (metis floor_divide_of_int_eq of_int_numeral)
  have bnd: "\<And>n::int. 0 \<le> n \<Longrightarrow> n \<le> 100 \<Longrightarrow> 0 \<le> 10 * (n div 10) \<and> 10 * (n div 10) \<le> 100"
    by presburger
  have b0: "0 \<le> 10 * (?n div 10)" and b1: "10 * (?n div 10) \<le> 100"
    using bnd[OF n0 n1] by auto
  have e: "(of_int \<lfloor>(of_int ?n :: real) / 10\<rfloor> * 10 :: real) = of_int (10 * (?n div 10))"
    unfolding fl by simp
  have "problemScore s tgs d z1 z2
          = clampInt (of_int \<lfloor>(of_int ?n :: real) / 10\<rfloor> * 10) 0 100"
    using r by (simp add: problemScore_def Let_def getPerformanceScore_eq)
  also have "\<dots> = clampInt (of_int (10 * (?n div 10))) 0 100"
    unfolding e ..
  also have "\<dots> = of_int (10 * (?n div 10))"
    unfolding clampInt_def round_of_int using b0 b1 by (simp add: max_def min_def)
  finally show ?thesis .
qed

lemmas scoring_defs =
  getPerformanceScore_def final_ratio_def getMentalIndex_def normal_def clamp_def
  sigmoid_def ALPHA1_def

text \<open>
  Claim C6, as the code has it. For a maximum score that is not negative,
  \<open>getPerformanceScore\<close> returns \<open>final_ratio \<times> maxScore\<close> itself, a value in
  \<open>[0, maxScore]\<close> that is neither floored nor rounded. The formal contest calls it with
  the maximum 100 only and then floors the value, steps it down to a multiple of ten and
  clamps it: the score of a problem is \<open>10 \<times> (floor(final_ratio \<times> 100) div 10)\<close>, which
  the clamp to \<open>[0, 100]\<close> leaves as it is.
\<close>

theorem performance_score_range_and_rounding:
  assumes "0 \<le> mxScore"
  shows "getPerformanceScore s d mxScore k z1 z2 = final_ratio s d k z1 z2 * mxScore
    \<and> 0 \<le> getPerformanceScore s d mxScore k z1 z2
    \<and> getPerformanceScore s d mxScore k z1 z2 \<le> mxScore
    \<and> problemScore s tgs d z1 z2
        = of_int (10 * (\<lfloor>final_ratio s d (avgK s tgs) z1 z2 * 100\<rfloor> div 10))
    \<and> problemScore s tgs d z1 z2
        = clamp (of_int (10 * (\<lfloor>final_ratio s d (avgK s tgs) z1 z2 * 100\<rfloor> div 10))) 0 100
    \<and> 0 \<le> problemScore s tgs d z1 z2 \<and> problemScore s tgs d z1 z2 \<le> 100"
proof -
  let ?q = "of_int (10 * (\<lfloor>final_ratio s d (avgK s tgs) z1 z2 * 100\<rfloor> div 10)) :: real"
  have ps: "problemScore s tgs d z1 z2 = ?q" by (rule problemScore_eq)
  have r: "0 \<le> final_ratio s d (avgK s tgs) z1 z2" "final_ratio s d (avgK s tgs) z1 z2 \<le> 1"
    using final_ratio_range by auto
  have n0: "0 \<le> \<lfloor>final_ratio s d (avgK s tgs) z1 z2 * 100\<rfloor>" using r by simp
  have n1: "\<lfloor>final_ratio s d (avgK s tgs) z1 z2 * 100\<rfloor> \<le> 100"
    using r by (simp add: floor_le_iff)
  have bnd: "\<And>n::int. 0 \<le> n \<Longrightarrow> n \<le> 100 \<Longrightarrow> 0 \<le> 10 * (n div 10) \<and> 10 * (n div 10) \<le> 100"
    by presburger
  have q: "0 \<le> ?q" "?q \<le> 100" using bnd[OF n0 n1] by auto
  have cl: "clamp ?q 0 100 = ?q" using q by (simp add: clamp_def max_def min_def)
  show ?thesis
    using getPerformanceScore_eq[OF assms] getPerformanceScore_range[OF assms] ps q cl
    by simp
qed

text \<open>The theorem at a competitor whose effective ability equals the difficulty 40,
  with both normal draws at zero: the ratio is one half, the performance score out of
  100 is 50, and so is the score of the problem.\<close>

theorem performance_score_range_and_rounding_witness:
  "(0::real) \<le> 100
   \<and> getPerformanceScore sample_able 40 100 0 0 0 = 50
   \<and> problemScore sample_able [tag_ds] 40 0 0 = 50
   \<and> 0 \<le> problemScore sample_able [tag_ds] 40 0 0
   \<and> problemScore sample_able [tag_ds] 40 0 0 \<le> 100"
  using performance_score_range_and_rounding [of 100 sample_able 40 0 0 0 "[tag_ds]"]
  by (simp add: scoring_defs ability_defs sample_able_def avgK_def getKnowledgeByType_def
      Let_def)

text \<open>Claim C6 as the specification words it fails for \<open>getPerformanceScore\<close>: with the
  maximum score 100, the base ratio one half, full stability and the second normal draw
  at 0.2, the final ratio is 0.505 and the function returns 50.5, where flooring,
  stepping down to a multiple of ten and clamping to \<open>[0, 100]\<close> give 50.\<close>

theorem getPerformanceScore_not_rounded:
  "final_ratio sample_able 40 0 0 (1 / 5) = 101 / 200
   \<and> getPerformanceScore sample_able 40 100 0 0 (1 / 5) = 101 / 2
   \<and> clamp (of_int (\<lfloor>of_int \<lfloor>final_ratio sample_able 40 0 0 (1 / 5) * 100\<rfloor> / (10::real)\<rfloor>
                       * 10)) 0 100 = 50
   \<and> getPerformanceScore sample_able 40 100 0 0 (1 / 5)
       \<noteq> clamp (of_int (\<lfloor>of_int \<lfloor>final_ratio sample_able 40 0 0 (1 / 5) * 100\<rfloor>
                             / (10::real)\<rfloor> * 10)) 0 100"
  by (simp add: scoring_defs ability_defs sample_able_def Let_def)

subsection \<open>Splitting a knowledge gain over the tags\<close>

lemmas tag_defs = tag_ds_def tag_graph_def tag_string_def tag_math_def tag_dp_cn_def

lemma knowledgeSum_addKnowledge:
  "knownTag t \<Longrightarrow> knowledgeSum (addKnowledge s t a) = knowledgeSum s + a"
  by (auto simp: knownTag_def addKnowledge_def knowledgeSum_def)

lemma knowledgeSum_credit:
  "\<forall>t\<in>set ts. knownTag t \<Longrightarrow>
   knowledgeSum (foldl (\<lambda>st tag. addKnowledge st tag a) s ts)
     = knowledgeSum s + of_nat (length ts) * a"
  by (induction ts arbitrary: s) (simp_all add: knowledgeSum_addKnowledge algebra_simps)

lemma axis_credit:
  "knowledge_ds (foldl (\<lambda>st tag. addKnowledge st tag a) s ts)
     = knowledge_ds s + of_nat (count_list ts tag_ds) * a"
  "knowledge_graph (foldl (\<lambda>st tag. addKnowledge st tag a) s ts)
     = knowledge_graph s + of_nat (count_list ts tag_graph) * a"
  "knowledge_string (foldl (\<lambda>st tag. addKnowledge st tag a) s ts)
     = knowledge_string s + of_nat (count_list ts tag_string) * a"
  "knowledge_math (foldl (\<lambda>st tag. addKnowledge st tag a) s ts)
     = knowledge_math s + of_nat (count_list ts tag_math) * a"
  "knowledge_dp (foldl (\<lambda>st tag. addKnowledge st tag a) s ts)
     = knowledge_dp s + of_nat (count_list ts ''DP'' + count_list ts tag_dp_cn) * a"
  by (induction ts arbitrary: s; simp add: addKnowledge_def tag_defs algebra_simps)+

lemma floor_share_le:
  assumes n: "0 < n"
  shows "of_nat n * of_int \<lfloor>g / of_nat n\<rfloor> \<le> (g::real)"
proof -
  have "of_int \<lfloor>g / of_nat n\<rfloor> \<le> g / of_nat n" by simp
  then have "of_nat n * of_int \<lfloor>g / of_nat n\<rfloor> \<le> of_nat n * (g / of_nat n)"
    by (rule mult_left_mono) simp
  with n show ?thesis by simp
qed

lemma applyProblemGain_unfold:
  assumes "0 < gain"
  shows "applyProblemGain s prob gain =
        (if of_int \<lfloor>gain / max 1 (of_nat (length (tags prob)))\<rfloor> \<le> (0::real) then s
         else foldl (\<lambda>st tag. addKnowledge st tag
                (of_int \<lfloor>gain / max 1 (of_nat (length (tags prob)))\<rfloor>)) s (tags prob))"
  using assms by (simp add: applyProblemGain_def Let_def)

lemma floor_share_max_le:
  assumes "0 \<le> g"
  shows "of_nat n * of_int \<lfloor>g / max 1 (of_nat n)\<rfloor> \<le> (g::real)"
proof (cases "n = 0")
  case True
  with assms show ?thesis by simp
next
  case False
  then have "(1::real) \<le> of_nat n" by (metis One_nat_def Suc_leI neq0_conv of_nat_1 of_nat_le_iff)
  then have "max 1 (of_nat n) = (of_nat n :: real)" by (simp add: max_def)
  with floor_share_le[of n g] False show ?thesis by simp
qed

text \<open>One turn of the loop, for a gain that is not negative.\<close>

lemma applyProblemGain_credit:
  assumes "0 \<le> gain"
  shows "knowledge_ds (applyProblemGain s prob gain)
        = knowledge_ds s + of_nat (count_list (tags prob) tag_ds)
            * of_int \<lfloor>gain / max 1 (of_nat (length (tags prob)))\<rfloor>
    \<and> knowledge_graph (applyProblemGain s prob gain)
        = knowledge_graph s + of_nat (count_list (tags prob) tag_graph)
            * of_int \<lfloor>gain / max 1 (of_nat (length (tags prob)))\<rfloor>
    \<and> knowledge_string (applyProblemGain s prob gain)
        = knowledge_string s + of_nat (count_list (tags prob) tag_string)
            * of_int \<lfloor>gain / max 1 (of_nat (length (tags prob)))\<rfloor>
    \<and> knowledge_math (applyProblemGain s prob gain)
        = knowledge_math s + of_nat (count_list (tags prob) tag_math)
            * of_int \<lfloor>gain / max 1 (of_nat (length (tags prob)))\<rfloor>
    \<and> knowledge_dp (applyProblemGain s prob gain)
        = knowledge_dp s
          + of_nat (count_list (tags prob) ''DP'' + count_list (tags prob) tag_dp_cn)
            * of_int \<lfloor>gain / max 1 (of_nat (length (tags prob)))\<rfloor>
    \<and> ((\<forall>t\<in>set (tags prob). knownTag t) \<longrightarrow>
         knowledgeSum (applyProblemGain s prob gain)
           = knowledgeSum s
             + of_nat (length (tags prob))
               * of_int \<lfloor>gain / max 1 (of_nat (length (tags prob)))\<rfloor>)
    \<and> of_nat (length (tags prob)) * of_int \<lfloor>gain / max 1 (of_nat (length (tags prob)))\<rfloor>
         \<le> gain
    \<and> (gain < of_nat (length (tags prob)) \<longrightarrow> applyProblemGain s prob gain = s)"
proof -
  let ?n = "length (tags prob)"
  let ?per = "of_int \<lfloor>gain / max 1 (of_nat ?n)\<rfloor> :: real"
  have per0: "0 \<le> ?per" using assms by simp
  have le: "of_nat ?n * ?per \<le> gain" by (rule floor_share_max_le[OF assms])
  have small: "gain < of_nat ?n \<longrightarrow> ?per = 0"
  proof
    assume g: "gain < of_nat ?n"
    then have "(1::real) \<le> of_nat ?n" using assms
      by (metis One_nat_def Suc_leI le_less_trans of_nat_0_less_iff of_nat_1 of_nat_le_iff)
    then have mx: "max 1 (of_nat ?n) = (of_nat ?n :: real)" by (simp add: max_def)
    have pos: "(0::real) < of_nat ?n" using g assms by linarith
    have "gain / of_nat ?n < 1" using g pos by (simp add: pos_divide_less_eq)
    then have "\<lfloor>gain / of_nat ?n\<rfloor> \<le> 0" by (simp add: floor_le_iff)
    with per0 show "?per = 0" unfolding mx by linarith
  qed
  show ?thesis
  proof (cases "gain = 0 \<or> ?per \<le> 0")
    case outer: True
    have z: "?per = 0"
    proof (cases "gain = 0")
      case True
      then show ?thesis by simp
    next
      case False
      with outer have "?per \<le> 0" by blast
      with per0 show ?thesis by linarith
    qed
    have "applyProblemGain s prob gain = s"
    proof (cases "gain = 0")
      case True
      then show ?thesis by (simp add: applyProblemGain_def)
    next
      case False
      with assms have "0 < gain" by simp
      from applyProblemGain_unfold[OF this, of s prob] z show ?thesis by simp
    qed
    with z le show ?thesis by simp
  next
    case False
    then have g: "0 < gain" and p: "\<not> ?per \<le> 0" using assms by auto
    have e: "applyProblemGain s prob gain
        = foldl (\<lambda>st tag. addKnowledge st tag ?per) s (tags prob)"
      using applyProblemGain_unfold[OF g, of s prob] p by simp
    have sm: "gain < of_nat ?n \<longrightarrow> applyProblemGain s prob gain = s"
      using small p by auto
    have ks: "(\<forall>t\<in>set (tags prob). knownTag t) \<longrightarrow>
         knowledgeSum (applyProblemGain s prob gain) = knowledgeSum s + of_nat ?n * ?per"
      unfolding e using knowledgeSum_credit[of "tags prob" ?per s] by blast
    show ?thesis
      using ks le sm by (simp add: e axis_credit)
  qed
qed

text \<open>The whole loop, by induction over the problems and their gains.\<close>

lemma applyKnowledgeGains_axes:
  assumes "length problems = length gains" and "\<forall>g\<in>set gains. 0 \<le> g"
  shows "knowledge_ds (applyKnowledgeGains s problems gains)
        = knowledge_ds s
          + (\<Sum>(p, g)\<leftarrow>zip problems gains. of_nat (count_list (tags p) tag_ds)
               * of_int \<lfloor>g / max 1 (of_nat (length (tags p)))\<rfloor>)
    \<and> knowledge_graph (applyKnowledgeGains s problems gains)
        = knowledge_graph s
          + (\<Sum>(p, g)\<leftarrow>zip problems gains. of_nat (count_list (tags p) tag_graph)
               * of_int \<lfloor>g / max 1 (of_nat (length (tags p)))\<rfloor>)
    \<and> knowledge_string (applyKnowledgeGains s problems gains)
        = knowledge_string s
          + (\<Sum>(p, g)\<leftarrow>zip problems gains. of_nat (count_list (tags p) tag_string)
               * of_int \<lfloor>g / max 1 (of_nat (length (tags p)))\<rfloor>)
    \<and> knowledge_math (applyKnowledgeGains s problems gains)
        = knowledge_math s
          + (\<Sum>(p, g)\<leftarrow>zip problems gains. of_nat (count_list (tags p) tag_math)
               * of_int \<lfloor>g / max 1 (of_nat (length (tags p)))\<rfloor>)
    \<and> knowledge_dp (applyKnowledgeGains s problems gains)
        = knowledge_dp s
          + (\<Sum>(p, g)\<leftarrow>zip problems gains.
               of_nat (count_list (tags p) ''DP'' + count_list (tags p) tag_dp_cn)
               * of_int \<lfloor>g / max 1 (of_nat (length (tags p)))\<rfloor>)"
  using assms
proof (induction problems gains arbitrary: s rule: list_induct2)
  case Nil
  then show ?case by simp
next
  case (Cons p ps g gs)
  from Cons.prems have g: "0 \<le> g" and gs: "\<forall>g\<in>set gs. 0 \<le> g" by simp_all
  note turn = applyProblemGain_credit[OF g, of s p]
  note rest = Cons.IH[OF gs, of "applyProblemGain s p g"]
  from turn rest show ?case by (simp add: algebra_simps)
qed

lemma applyKnowledgeGains_total:
  assumes "length problems = length gains" and "\<forall>g\<in>set gains. 0 \<le> g"
    and "\<forall>p\<in>set problems. \<forall>t\<in>set (tags p). knownTag t"
  shows "knowledgeSum (applyKnowledgeGains s problems gains)
        = knowledgeSum s
          + (\<Sum>(p, g)\<leftarrow>zip problems gains. of_nat (length (tags p))
               * of_int \<lfloor>g / max 1 (of_nat (length (tags p)))\<rfloor>)"
  using assms
proof (induction problems gains arbitrary: s rule: list_induct2)
  case Nil
  then show ?case by simp
next
  case (Cons p ps g gs)
  from Cons.prems have g: "0 \<le> g" and gs: "\<forall>g\<in>set gs. 0 \<le> g"
    and k: "\<forall>t\<in>set (tags p). knownTag t"
    and ks: "\<forall>p\<in>set ps. \<forall>t\<in>set (tags p). knownTag t" by simp_all
  from applyProblemGain_credit[OF g, of s p] k
  have turn: "knowledgeSum (applyProblemGain s p g)
           = knowledgeSum s + of_nat (length (tags p))
               * of_int \<lfloor>g / max 1 (of_nat (length (tags p)))\<rfloor>" by blast
  note rest = Cons.IH[OF gs ks, of "applyProblemGain s p g"]
  from turn rest show ?case by simp
qed

lemma credited_le_gains:
  assumes "length problems = length gains" and "\<forall>g\<in>set gains. 0 \<le> g"
  shows "(\<Sum>(p, g)\<leftarrow>zip problems gains. of_nat (length (tags p))
               * of_int \<lfloor>g / max 1 (of_nat (length (tags p)))\<rfloor>)
         \<le> sum_list (gains :: real list)"
  using assms
proof (induction problems gains rule: list_induct2)
  case Nil
  then show ?case by simp
next
  case (Cons p ps g gs)
  from Cons.prems have g: "0 \<le> g" and gs: "\<forall>g\<in>set gs. 0 \<le> g" by simp_all
  from floor_share_max_le[OF g, of "length (tags p)"] Cons.IH[OF gs]
  show ?case by simp
qed

text \<open>
  Claim C10. When the distributed knowledge gains, none of them negative, are applied
  to a competitor, the loop of \<open>handleMockContestResults\<close> credits every tag of every
  problem with \<open>floor(gain / tagCount)\<close> of that problem's gain, where
  \<open>tagCount = max(1, number of tags)\<close>: each knowledge axis grows by the sum, over the
  problems, of that share times the number of the problem's tags that name the axis.
  When all the tags name knowledge axes the five axes together grow by the sum of
  \<open>number of tags \<times> floor(gain / tagCount)\<close>, which is at most the sum of the gains.
  In one turn of the loop the axes grow by the share of that problem, the product
  \<open>number of tags \<times> floor(gain / tagCount)\<close> is at most the gain, and a gain smaller
  than the number of tags leaves the competitor unchanged.
\<close>

theorem applyKnowledgeGains_floor_split:
  assumes "length problems = length gains" and "\<forall>g\<in>set gains. 0 \<le> g" and "0 \<le> gain"
  shows "knowledge_ds (applyKnowledgeGains s problems gains)
        = knowledge_ds s
          + (\<Sum>(p, g)\<leftarrow>zip problems gains. of_nat (count_list (tags p) tag_ds)
               * of_int \<lfloor>g / max 1 (of_nat (length (tags p)))\<rfloor>)
    \<and> knowledge_graph (applyKnowledgeGains s problems gains)
        = knowledge_graph s
          + (\<Sum>(p, g)\<leftarrow>zip problems gains. of_nat (count_list (tags p) tag_graph)
               * of_int \<lfloor>g / max 1 (of_nat (length (tags p)))\<rfloor>)
    \<and> knowledge_string (applyKnowledgeGains s problems gains)
        = knowledge_string s
          + (\<Sum>(p, g)\<leftarrow>zip problems gains. of_nat (count_list (tags p) tag_string)
               * of_int \<lfloor>g / max 1 (of_nat (length (tags p)))\<rfloor>)
    \<and> knowledge_math (applyKnowledgeGains s problems gains)
        = knowledge_math s
          + (\<Sum>(p, g)\<leftarrow>zip problems gains. of_nat (count_list (tags p) tag_math)
               * of_int \<lfloor>g / max 1 (of_nat (length (tags p)))\<rfloor>)
    \<and> knowledge_dp (applyKnowledgeGains s problems gains)
        = knowledge_dp s
          + (\<Sum>(p, g)\<leftarrow>zip problems gains.
               of_nat (count_list (tags p) ''DP'' + count_list (tags p) tag_dp_cn)
               * of_int \<lfloor>g / max 1 (of_nat (length (tags p)))\<rfloor>)
    \<and> ((\<forall>p\<in>set problems. \<forall>t\<in>set (tags p). knownTag t) \<longrightarrow>
         knowledgeSum (applyKnowledgeGains s problems gains)
           = knowledgeSum s
             + (\<Sum>(p, g)\<leftarrow>zip problems gains. of_nat (length (tags p))
                  * of_int \<lfloor>g / max 1 (of_nat (length (tags p)))\<rfloor>))
    \<and> (\<Sum>(p, g)\<leftarrow>zip problems gains. of_nat (length (tags p))
           * of_int \<lfloor>g / max 1 (of_nat (length (tags p)))\<rfloor>) \<le> sum_list gains
    \<and> knowledge_ds (applyProblemGain s prob gain)
        = knowledge_ds s + of_nat (count_list (tags prob) tag_ds)
            * of_int \<lfloor>gain / max 1 (of_nat (length (tags prob)))\<rfloor>
    \<and> knowledge_graph (applyProblemGain s prob gain)
        = knowledge_graph s + of_nat (count_list (tags prob) tag_graph)
            * of_int \<lfloor>gain / max 1 (of_nat (length (tags prob)))\<rfloor>
    \<and> knowledge_string (applyProblemGain s prob gain)
        = knowledge_string s + of_nat (count_list (tags prob) tag_string)
            * of_int \<lfloor>gain / max 1 (of_nat (length (tags prob)))\<rfloor>
    \<and> knowledge_math (applyProblemGain s prob gain)
        = knowledge_math s + of_nat (count_list (tags prob) tag_math)
            * of_int \<lfloor>gain / max 1 (of_nat (length (tags prob)))\<rfloor>
    \<and> knowledge_dp (applyProblemGain s prob gain)
        = knowledge_dp s
          + of_nat (count_list (tags prob) ''DP'' + count_list (tags prob) tag_dp_cn)
            * of_int \<lfloor>gain / max 1 (of_nat (length (tags prob)))\<rfloor>
    \<and> ((\<forall>t\<in>set (tags prob). knownTag t) \<longrightarrow>
         knowledgeSum (applyProblemGain s prob gain)
           = knowledgeSum s
             + of_nat (length (tags prob))
               * of_int \<lfloor>gain / max 1 (of_nat (length (tags prob)))\<rfloor>)
    \<and> of_nat (length (tags prob)) * of_int \<lfloor>gain / max 1 (of_nat (length (tags prob)))\<rfloor>
         \<le> gain
    \<and> (gain < of_nat (length (tags prob)) \<longrightarrow> applyProblemGain s prob gain = s)"
proof -
  note axes = applyKnowledgeGains_axes[OF assms(1,2), of s]
  have total: "(\<forall>p\<in>set problems. \<forall>t\<in>set (tags p). knownTag t) \<longrightarrow>
         knowledgeSum (applyKnowledgeGains s problems gains)
           = knowledgeSum s
             + (\<Sum>(p, g)\<leftarrow>zip problems gains. of_nat (length (tags p))
                  * of_int \<lfloor>g / max 1 (of_nat (length (tags p)))\<rfloor>)"
    using applyKnowledgeGains_total[OF assms(1,2), of s] by blast
  note bound = credited_le_gains[OF assms(1,2)]
  note turn = applyProblemGain_credit[OF assms(3), of s prob]
  from axes total bound turn show ?thesis by blast
qed

text \<open>The theorem at three problems with the gains 7, 5 and 1. The first problem is
  tagged twice with data structures and once with graphs and credits 2 per tag; the
  second has one tag, mathematics, and credits 5; the third has two tags and credits
  nothing. Of the 13 points 11 are credited. In one turn a gain of 7 on the first
  problem credits 6, and a gain of 2 credits nothing.\<close>

theorem applyKnowledgeGains_floor_split_witness:
  "length [sample_p1, sample_p2, sample_p3] = length [7, 5, 1 :: real]
   \<and> (0::real) \<le> 7 \<and> (0::real) \<le> 5 \<and> (0::real) \<le> 1 \<and> (0::real) \<le> 2
   \<and> tags sample_p1 = [tag_ds, tag_graph, tag_ds] \<and> tags sample_p2 = [tag_math]
   \<and> tags sample_p3 = [''DP'', tag_string]
   \<and> knownTag tag_ds \<and> knownTag tag_graph \<and> knownTag tag_math \<and> knownTag ''DP''
   \<and> knownTag tag_string
   \<and> (2::real) < of_nat (length (tags sample_p1))
   \<and> knowledge_ds (applyKnowledgeGains sample_student [sample_p1, sample_p2, sample_p3]
                      [7, 5, 1]) = 7
   \<and> knowledge_graph (applyKnowledgeGains sample_student [sample_p1, sample_p2, sample_p3]
                      [7, 5, 1]) = 3
   \<and> knowledge_string (applyKnowledgeGains sample_student [sample_p1, sample_p2, sample_p3]
                      [7, 5, 1]) = 0
   \<and> knowledge_math (applyKnowledgeGains sample_student [sample_p1, sample_p2, sample_p3]
                      [7, 5, 1]) = 7
   \<and> knowledge_dp (applyKnowledgeGains sample_student [sample_p1, sample_p2, sample_p3]
                      [7, 5, 1]) = 0
   \<and> knowledgeSum (applyKnowledgeGains sample_student [sample_p1, sample_p2, sample_p3]
                      [7, 5, 1]) = knowledgeSum sample_student + 11
   \<and> knowledgeSum (applyProblemGain sample_student sample_p1 7)
       = knowledgeSum sample_student + 6
   \<and> knowledge_ds (applyProblemGain sample_student sample_p1 7) = 7
   \<and> knowledge_graph (applyProblemGain sample_student sample_p1 7) = 3
   \<and> applyProblemGain sample_student sample_p1 2 = sample_student"
  using applyKnowledgeGains_floor_split
          [of "[sample_p1, sample_p2, sample_p3]" "[7, 5, 1]" 7 sample_student sample_p1]
    applyKnowledgeGains_floor_split
          [of "[sample_p1, sample_p2, sample_p3]" "[7, 5, 1]" 2 sample_student sample_p1]
  by (simp add: sample_problem_defs sample_student_def knownTag_def knowledgeSum_def tag_defs)

subsection \<open>Extra pressure at the midpoint\<close>

lemma extraPressureOf_midpoint: "extraPressureOf totalMax (totalMax / 2) (totalMax / 2) = 0"
  by (simp add: extraPressureOf_def js_or_def)

lemma resultFor_midpoint:
  assumes "totalScore state = totalMax / 2"
  shows "r_extraPressure (resultFor e compName passLine totalMax (totalMax / 2) minScore state) = 0
    \<and> r_remark (resultFor e compName passLine totalMax (totalMax / 2) minScore state) = NoRemark"
proof -
  have "extraPressureOf totalMax (totalMax / 2) (totalScore state) = 0"
    unfolding assms by (rule extraPressureOf_midpoint)
  then show ?thesis by (simp add: resultFor_def Let_def poorShowing_def)
qed

lemmas sample_defs =
  sample_env_def sample_late_game_def sample_csp1_def sample_config_def
  sample_weak_states_def sample_student_def sample_p1_def sample_p2_def sample_p3_def

lemmas result_defs =
  contestResults_def passLineOf_def calculatePassLine_def getPassRateForCompetition_def
  totalMaxOf_def minOf_def resultFor_def basePressureUpdate_def extraPressureOf_def
  poorShowing_def medalOf_def notParticipatedResult_def js_or_def globalOr_def

lemmas name_defs =
  province_normal_def province_strong_def province_weak_def name_provincial_def

text \<open>
  Claim C9. In a contest with a positive total maximum, a participant whose score is
  exactly the midpoint \<open>totalMax / 2\<close> is not below the midpoint, has the extra pressure 0
  and the empty remark in the results, whether or not they passed or hold the lowest
  score, and the later application of the extra pressure leaves them as they are.
\<close>

theorem midpoint_score_no_extra_pressure:
  assumes "i < length states" and "0 < totalMaxOf cfg cmp"
    and "totalScore (states ! i) = totalMaxOf cfg cmp / 2"
  shows "r_extraPressure (contestResults e g states cfg cmp ineligible ! i) = 0
    \<and> r_remark (contestResults e g states cfg cmp ineligible ! i) = NoRemark
    \<and> \<not> (totalScore (states ! i) < totalMaxOf cfg cmp / 2)
    \<and> applyExtraPressure e (contestResults e g states cfg cmp ineligible ! i)
        = contestResults e g states cfg cmp ineligible ! i"
proof -
  let ?r = "contestResults e g states cfg cmp ineligible ! i"
  have r: "?r = resultFor e (comp_name cmp) (passLineOf e g states cfg cmp) (totalMaxOf cfg cmp)
               (totalMaxOf cfg cmp / 2) (minOf (rev (sort (map totalScore states)))) (states ! i)"
    using assms(1,2) by (simp add: contestResults_def Let_def nth_append)
  have z: "r_extraPressure ?r = 0 \<and> r_remark ?r = NoRemark"
    unfolding r by (rule resultFor_midpoint[OF assms(3)])
  then have "applyExtraPressure e ?r = ?r" by (simp add: applyExtraPressure_def Let_def)
  with z assms(3) show ?thesis by simp
qed

text \<open>The theorem at a contest of three problems of 100 points: the second participant
  scored 150.\<close>

theorem midpoint_score_no_extra_pressure_witness:
  "(1::nat) < length sample_states \<and> 0 < totalMaxOf sample_config sample_csp1
   \<and> totalScore (sample_states ! 1) = totalMaxOf sample_config sample_csp1 / 2
   \<and> r_extraPressure
        (contestResults sample_env sample_game sample_states sample_config sample_csp1 [] ! 1) = 0
   \<and> r_remark
        (contestResults sample_env sample_game sample_states sample_config sample_csp1 [] ! 1)
       = NoRemark"
  using midpoint_score_no_extra_pressure
          [of 1 sample_states sample_config sample_csp1 sample_env sample_game "[]"]
  by (simp add: totalMaxOf_def js_or_def sample_config_def sample_states_def sample_p1_def
        sample_p2_def sample_p3_def)

subsection \<open>Eligibility\<close>

lemma eligibilityLoop_filter:
  "eligibilityLoop q order idx h xs =
     (filter (\<lambda>s. idx > 0 \<longrightarrow> hasQualification q h (order ! nat (idx - 1)) (name s))
        (filter active (List.map_filter (\<lambda>s. s) xs)),
      filter (\<lambda>s. \<not> (idx > 0 \<longrightarrow> hasQualification q h (order ! nat (idx - 1)) (name s)))
        (filter active (List.map_filter (\<lambda>s. s) xs)))"
  by (induction q order idx h xs rule: eligibilityLoop.induct)
     (auto simp: map_filter_simps Let_def split: prod.splits)

lemma ledger_init: "ledger (g\<lparr>qualification := Some (ledger g)\<rparr>) = ledger g"
  by (simp add: ledger_def)

lemma eligible_init:
  "eligibleStudents e (g\<lparr>qualification := Some (ledger g)\<rparr>) n = eligibleStudents e g n"
  "ineligibleStudents e (g\<lparr>qualification := Some (ledger g)\<rparr>) n = ineligibleStudents e g n"
  by (simp_all add: eligibleStudents_def ineligibleStudents_def halfIndex_def ledger_init)

lemma holdCompetitionModalNew_started:
  "fst (holdCompetitionModalNew e cmp (g, tr)) = Started el inel \<Longrightarrow>
   el = eligibleStudents e g (comp_name cmp) \<and> inel = ineligibleStudents e g (comp_name cmp)"
  by (auto simp: Let_def eligible_init split: if_splits)

text \<open>
  Claim C3. For a contest at a stage after the first, a name that the ledger of the
  current half-season does not hold for the previous stage belongs to nobody in the
  eligible list; the eligible list is exactly the active roster members whose name the
  ledger holds there. For the first contest of the chain every active roster member is
  eligible and nobody is ineligible. The list a started contest runs with is this list.
\<close>

theorem eligibility_requires_previous_stage:
  "(0 < indexOf (compOrder e) compName
      \<and> \<not> hasQualification (ledger g) (halfIndex e g)
            (compOrder e ! nat (indexOf (compOrder e) compName - 1)) nm
      \<longrightarrow> (\<forall>s\<in>set (eligibleStudents e g compName). name s \<noteq> nm))
   \<and> (0 < indexOf (compOrder e) compName
      \<longrightarrow> eligibleStudents e g compName =
            filter (\<lambda>s. hasQualification (ledger g) (halfIndex e g)
                         (compOrder e ! nat (indexOf (compOrder e) compName - 1)) (name s))
              (filter active (List.map_filter (\<lambda>s. s) (students g))))
   \<and> (indexOf (compOrder e) compName = 0
      \<longrightarrow> eligibleStudents e g compName = filter active (List.map_filter (\<lambda>s. s) (students g))
          \<and> ineligibleStudents e g compName = [])
   \<and> (fst (holdCompetitionModalNew e cmp (g, tr)) = Started el inel
      \<longrightarrow> el = eligibleStudents e g (comp_name cmp))"
  using holdCompetitionModalNew_started[of e cmp g tr el inel]
  by (auto simp: eligibleStudents_def ineligibleStudents_def eligibilityLoop_filter)

lemma sample_half: "halfIndex sample_env sample_game = 0"
  by (simp add: halfIndex_def halfBoundary_def globalOr_def sample_env_def sample_game_def)

lemma sample_order:
  "compOrder sample_env = [''CSP-S1'', ''CSP-S2'', ''NOIP'', name_provincial, ''NOI'']"
  by (simp add: compOrder_def sample_env_def)

lemma sample_game_fields:
  "students sample_game = [Some sample_student, None, Some sample_able]"
  "ledger sample_game = (\<lambda>k. None)((0, ''CSP-S1'') \<mapsto> {''A''})"
  by (simp_all add: sample_game_def ledger_def)

lemma sample_names:
  "name sample_student = ''C''" "name sample_able = ''A''"
  "active sample_student" "active sample_able"
  by (simp_all add: sample_student_def sample_able_def)

text \<open>The theorem in week 10 with only A in the set of the first contest: C, who is
  not in it, is left out of the second contest, and both enter the first.\<close>

theorem eligibility_requires_previous_stage_witness:
  "0 < indexOf (compOrder sample_env) ''CSP-S2''
   \<and> \<not> hasQualification (ledger sample_game) (halfIndex sample_env sample_game)
         (compOrder sample_env ! nat (indexOf (compOrder sample_env) ''CSP-S2'' - 1)) ''C''
   \<and> map name (eligibleStudents sample_env sample_game ''CSP-S2'') = [''A'']
   \<and> indexOf (compOrder sample_env) ''CSP-S1'' = 0
   \<and> map name (eligibleStudents sample_env sample_game ''CSP-S1'') = [''C'', ''A'']
   \<and> fst (holdCompetitionModalNew sample_env sample_csp1 (sample_game, []))
       = Started [sample_student, sample_able] []"
  using eligibility_requires_previous_stage
          [of sample_env "''CSP-S2''" sample_game "''C''" sample_csp1 "[]"
              "[sample_student, sample_able]" "[]"]
        eligibility_requires_previous_stage
          [of sample_env "''CSP-S1''" sample_game "''C''" sample_csp1 "[]"
              "[sample_student, sample_able]" "[]"]
  by (simp add: sample_half sample_order hasQualification_def sample_game_fields sample_names
        eligibleStudents_def ineligibleStudents_def Let_def ledger_init sample_csp1_def
        halfIndex_def [of _ "sample_game\<lparr>qualification := Some (ledger sample_game)\<rparr>"])

subsection \<open>Funding is guarded by a key that is never stored\<close>

text \<open>Without a global \<open>halfBoundary_ui\<close> the set of issued keys never changes.\<close>

lemma distributeRewards_never_marks:
  "globals e ''halfBoundary_ui'' = None \<Longrightarrow>
   fundingIssued (fst (snd (distributeRewards e rnd results compName (g, tr)))) = fundingIssued g"
  by (simp add: Let_def markFundingIssued_def)

text \<open>
  Claim C2 on the code. In week 10, with one participant who passed the first contest
  and every random draw at 0, \<open>distributeRewards\<close> pays 2000; called again on the game
  it returned, for the same half-season, contest and week, it pays 2000 once more.
\<close>

theorem distributeRewards_pays_twice:
  "distributeRewards sample_env (\<lambda>i. 0) sample_results ''CSP-S1'' (sample_game, [])
     = (2000, sample_game\<lparr>budget := 102000\<rparr>, [])
   \<and> distributeRewards sample_env (\<lambda>i. 0) sample_results ''CSP-S1''
       (sample_game\<lparr>budget := 102000\<rparr>, [])
     = (2000, sample_game\<lparr>budget := 104000\<rparr>, [])"
  by (simp add: sample_env_def sample_game_def sample_results_def Let_def
        markFundingIssued_def rewardOf_def uniformInt_def js_or_def halfIndex_def
        halfBoundary_def globalOr_def)

subsection \<open>The chain-failure ending\<close>

lemma signal_game:
  "budget (fst (signalChainBroken e (g, tr))) = budget g"
  "fundingIssued (fst (signalChainBroken e (g, tr))) = fundingIssued g"
  "careerCompetitions (fst (signalChainBroken e (g, tr))) = careerCompetitions g"
  "completedCompetitions (fst (signalChainBroken e (g, tr))) = completedCompetitions g"
  "qualifiedNames (fst (signalChainBroken e (g, tr))) k = qualifiedNames g k"
  "snd (signalChainBroken e (g, tr)) = tr @ signalActions e g"
  by (simp_all add: qualifiedNames_def ledger_def)

lemma signalActions_signal:
  "list_ex isEndingSignal (signalActions e g)"
  "ShowDetailedResults x \<notin> set (signalActions e g)"
  by (simp_all add: signalActions_def isEndingSignal_def)

lemma countPassed_0: "countPassed results = 0 \<Longrightarrow> passedNames results = []"
  by (auto simp: countPassed_def passedNames_def filter_empty_conv)

lemma updateQualifications_frame:
  "budget (updateQualifications e results n g) = budget g"
  "fundingIssued (updateQualifications e results n g) = fundingIssued g"
  "careerCompetitions (updateQualifications e results n g) = careerCompetitions g"
  "completedCompetitions (updateQualifications e results n g) = completedCompetitions g"
  "week (updateQualifications e results n g) = week g"
  by (simp_all add: updateQualifications_def Let_def split: option.splits)

lemma updateQualifications_none_passed:
  "passedNames results = [] \<Longrightarrow>
   qualifiedNames (updateQualifications e results n g) k = qualifiedNames g k"
  by (auto simp: updateQualifications_def qualifiedNames_def ledger_def Let_def
      split: option.splits)

lemma halfIndex_update: "halfIndex e (updateQualifications e results n g) = halfIndex e g"
  by (simp add: halfIndex_def updateQualifications_frame)

lemma holdCompetitionModalNew_ended:
  assumes "halfIndex e g = 1" and "eligibleStudents e g (comp_name cmp) = []"
  shows "holdCompetitionModalNew e cmp (g, tr) =
          (Ended, signalChainBroken e (skippedGame g cmp, tr @ [Alert]))"
  using assms
  by (simp add: Let_def eligible_init skippedRecord_def skippedGame_def
      del: signalChainBroken.simps)

lemma handleCompetitionResults_ended:
  assumes "halfIndex e g = 1" and "countPassed (contestResults e g states cfg cmp inel) = 0"
  shows "handleCompetitionResults e rnd states cfg cmp inel (g, tr) =
          (contestResults e g states cfg cmp inel,
           signalChainBroken e
             (updateQualifications e (contestResults e g states cfg cmp inel)
                (comp_name cmp) g, tr))"
  using assms by (simp add: Let_def halfIndex_update del: signalChainBroken.simps)

text \<open>
  Claim C1, as the code has it. In the second half-season:
  when nobody is eligible, \<open>holdCompetitionModalNew\<close> first marks the contest completed
  and appends a career record with no participants, then alerts and signals the
  chain-failure ending and stops; no simulation is started, the budget, the funding keys
  and the names in the qualification ledger are as before.
  When no participant passes, \<open>handleCompetitionResults\<close> has built the results (with the
  pass and fail updates of pressure and mental) and run \<open>updateQualifications\<close>, which
  adds no name; then it signals the ending and stops: the results are not shown, and the
  budget, the funding keys, the career ledger and the completed keys are as before.
\<close>

theorem chain_failure_order_of_effects:
  "(halfIndex e g = 1 \<and> eligibleStudents e g (comp_name cmp) = [] \<longrightarrow>
      fst (holdCompetitionModalNew e cmp (g, tr)) = Ended
      \<and> snd (snd (holdCompetitionModalNew e cmp (g, tr)))
          = tr @ [Alert] @ signalActions e (skippedGame g cmp)
      \<and> list_ex isEndingSignal (signalActions e (skippedGame g cmp))
      \<and> careerCompetitions (skippedGame g cmp) = careerCompetitions g @ [skippedRecord g cmp]
      \<and> completedCompetitions (skippedGame g cmp)
          = insert (1, comp_name cmp, comp_week cmp) (completedCompetitions g)
      \<and> careerCompetitions (fst (snd (holdCompetitionModalNew e cmp (g, tr))))
          = careerCompetitions g @ [skippedRecord g cmp]
      \<and> budget (fst (snd (holdCompetitionModalNew e cmp (g, tr)))) = budget g
      \<and> fundingIssued (fst (snd (holdCompetitionModalNew e cmp (g, tr)))) = fundingIssued g
      \<and> qualifiedNames (fst (snd (holdCompetitionModalNew e cmp (g, tr)))) k
          = qualifiedNames g k)
   \<and> (halfIndex e g = 1 \<and> countPassed (contestResults e g states cfg cmp inel) = 0 \<longrightarrow>
      fst (handleCompetitionResults e rnd states cfg cmp inel (g, tr))
          = contestResults e g states cfg cmp inel
      \<and> snd (snd (handleCompetitionResults e rnd states cfg cmp inel (g, tr)))
          = tr @ signalActions e
                   (updateQualifications e (contestResults e g states cfg cmp inel)
                      (comp_name cmp) g)
      \<and> list_ex isEndingSignal
           (signalActions e
              (updateQualifications e (contestResults e g states cfg cmp inel)
                 (comp_name cmp) g))
      \<and> ShowDetailedResults x \<notin> set
           (signalActions e
              (updateQualifications e (contestResults e g states cfg cmp inel)
                 (comp_name cmp) g))
      \<and> budget (fst (snd (handleCompetitionResults e rnd states cfg cmp inel (g, tr))))
          = budget g
      \<and> fundingIssued (fst (snd (handleCompetitionResults e rnd states cfg cmp inel (g, tr))))
          = fundingIssued g
      \<and> careerCompetitions
           (fst (snd (handleCompetitionResults e rnd states cfg cmp inel (g, tr))))
          = careerCompetitions g
      \<and> completedCompetitions
           (fst (snd (handleCompetitionResults e rnd states cfg cmp inel (g, tr))))
          = completedCompetitions g
      \<and> qualifiedNames (fst (snd (handleCompetitionResults e rnd states cfg cmp inel (g, tr)))) k
          = qualifiedNames g k)"
proof (rule conjI; rule impI)
  assume a: "halfIndex e g = 1 \<and> eligibleStudents e g (comp_name cmp) = []"
  note h = holdCompetitionModalNew_ended[OF a[THEN conjunct1] a[THEN conjunct2], of tr]
  show "fst (holdCompetitionModalNew e cmp (g, tr)) = Ended
      \<and> snd (snd (holdCompetitionModalNew e cmp (g, tr)))
          = tr @ [Alert] @ signalActions e (skippedGame g cmp)
      \<and> list_ex isEndingSignal (signalActions e (skippedGame g cmp))
      \<and> careerCompetitions (skippedGame g cmp) = careerCompetitions g @ [skippedRecord g cmp]
      \<and> completedCompetitions (skippedGame g cmp)
          = insert (1, comp_name cmp, comp_week cmp) (completedCompetitions g)
      \<and> careerCompetitions (fst (snd (holdCompetitionModalNew e cmp (g, tr))))
          = careerCompetitions g @ [skippedRecord g cmp]
      \<and> budget (fst (snd (holdCompetitionModalNew e cmp (g, tr)))) = budget g
      \<and> fundingIssued (fst (snd (holdCompetitionModalNew e cmp (g, tr)))) = fundingIssued g
      \<and> qualifiedNames (fst (snd (holdCompetitionModalNew e cmp (g, tr)))) k
          = qualifiedNames g k"
    unfolding h
    by (simp add: signal_game signalActions_signal del: signalChainBroken.simps)
       (simp add: skippedGame_def qualifiedNames_def ledger_def)
next
  assume a: "halfIndex e g = 1 \<and> countPassed (contestResults e g states cfg cmp inel) = 0"
  let ?rs = "contestResults e g states cfg cmp inel"
  have pn: "passedNames ?rs = []" using a countPassed_0 by blast
  note h = handleCompetitionResults_ended[OF a[THEN conjunct1] a[THEN conjunct2], of rnd tr]
  show "fst (handleCompetitionResults e rnd states cfg cmp inel (g, tr))
          = contestResults e g states cfg cmp inel
      \<and> snd (snd (handleCompetitionResults e rnd states cfg cmp inel (g, tr)))
          = tr @ signalActions e
                   (updateQualifications e (contestResults e g states cfg cmp inel)
                      (comp_name cmp) g)
      \<and> list_ex isEndingSignal
           (signalActions e
              (updateQualifications e (contestResults e g states cfg cmp inel)
                 (comp_name cmp) g))
      \<and> ShowDetailedResults x \<notin> set
           (signalActions e
              (updateQualifications e (contestResults e g states cfg cmp inel)
                 (comp_name cmp) g))
      \<and> budget (fst (snd (handleCompetitionResults e rnd states cfg cmp inel (g, tr))))
          = budget g
      \<and> fundingIssued (fst (snd (handleCompetitionResults e rnd states cfg cmp inel (g, tr))))
          = fundingIssued g
      \<and> careerCompetitions
           (fst (snd (handleCompetitionResults e rnd states cfg cmp inel (g, tr))))
          = careerCompetitions g
      \<and> completedCompetitions
           (fst (snd (handleCompetitionResults e rnd states cfg cmp inel (g, tr))))
          = completedCompetitions g
      \<and> qualifiedNames (fst (snd (handleCompetitionResults e rnd states cfg cmp inel (g, tr)))) k
          = qualifiedNames g k"
    unfolding h
    by (simp add: signal_game signalActions_signal updateQualifications_frame
          updateQualifications_none_passed[OF pn] del: signalChainBroken.simps)
qed

lemma sample_late_half: "halfIndex sample_env sample_late_game = 1"
  by (simp add: halfIndex_def halfBoundary_def globalOr_def sample_env_def
        sample_late_game_def)

lemma sample_late_nobody: "eligibleStudents sample_env sample_late_game (comp_name sample_noip) = []"
  by (simp add: eligibleStudents_def sample_order ledger_def hasQualification_def
        sample_late_half Let_def name_provincial_def sample_late_game_def sample_noip_def
        sample_student_def sample_able_def)

lemma sample_late_none_passed:
  "countPassed (contestResults sample_env sample_late_game sample_weak_states sample_config
                  sample_csp1 []) = 0"
  by (simp add: countPassed_def result_defs Let_def sample_defs name_defs)

lemma sample_trigger: "signalActions sample_env g = [TriggerGameEnding CHAIN_BROKEN g]"
  by (simp add: signalActions_def sample_env_def)

text \<open>The theorem in week 30 with an empty ledger: the third contest has nobody
  eligible, and in the first contest the only participant scores 10 of 300 and fails.\<close>

theorem chain_failure_order_of_effects_witness:
  "halfIndex sample_env sample_late_game = 1
   \<and> eligibleStudents sample_env sample_late_game (comp_name sample_noip) = []
   \<and> fst (holdCompetitionModalNew sample_env sample_noip (sample_late_game, [])) = Ended
   \<and> snd (snd (holdCompetitionModalNew sample_env sample_noip (sample_late_game, [])))
       = [Alert, TriggerGameEnding CHAIN_BROKEN (skippedGame sample_late_game sample_noip)]
   \<and> countPassed (contestResults sample_env sample_late_game sample_weak_states sample_config
                    sample_csp1 []) = 0
   \<and> snd (snd (handleCompetitionResults sample_env (\<lambda>i. 0) sample_weak_states sample_config
                  sample_csp1 [] (sample_late_game, [])))
       = [TriggerGameEnding CHAIN_BROKEN
            (updateQualifications sample_env
               (contestResults sample_env sample_late_game sample_weak_states sample_config
                  sample_csp1 [])
               (comp_name sample_csp1) sample_late_game)]
   \<and> budget (fst (snd (handleCompetitionResults sample_env (\<lambda>i. 0) sample_weak_states
                         sample_config sample_csp1 [] (sample_late_game, []))))
       = budget sample_late_game"
  using chain_failure_order_of_effects
          [where e = sample_env and g = sample_late_game and cmp = sample_noip
             and tr = "[]"]
        chain_failure_order_of_effects
          [where e = sample_env and g = sample_late_game and cmp = sample_csp1
             and tr = "[]" and states = sample_weak_states and cfg = sample_config
             and inel = "[]" and rnd = "\<lambda>i. 0"]
        sample_late_half sample_late_nobody sample_late_none_passed
  by (simp add: sample_trigger del: holdCompetitionModalNew.simps
        handleCompetitionResults.simps)

lemma sample_signal:
  "signalChainBroken sample_env (g, tr) = (g, tr @ [TriggerGameEnding CHAIN_BROKEN g])"
  by (simp add: sample_trigger) (simp add: sample_env_def)

text \<open>Claim C1 as the specification words it fails: when nobody is eligible, the
  ending function is called with a game that already holds the career record and the
  completed key of this contest, which the game did not hold before.\<close>

theorem career_written_before_ending_signal:
  "holdCompetitionModalNew sample_env sample_noip (sample_late_game, [])
     = (Ended, skippedGame sample_late_game sample_noip,
        [Alert, TriggerGameEnding CHAIN_BROKEN (skippedGame sample_late_game sample_noip)])
   \<and> careerCompetitions sample_late_game = []
   \<and> careerCompetitions (skippedGame sample_late_game sample_noip)
       = [skippedRecord sample_late_game sample_noip]
   \<and> completedCompetitions sample_late_game = {}
   \<and> completedCompetitions (skippedGame sample_late_game sample_noip)
       = {(1, ''NOIP'', Some 30)}"
proof -
  have h: "holdCompetitionModalNew sample_env sample_noip (sample_late_game, [])
     = (Ended, skippedGame sample_late_game sample_noip,
        [Alert, TriggerGameEnding CHAIN_BROKEN (skippedGame sample_late_game sample_noip)])"
    unfolding holdCompetitionModalNew_ended[OF sample_late_half sample_late_nobody, of "[]"]
      sample_signal by simp
  have c: "careerCompetitions sample_late_game = []"
    "completedCompetitions sample_late_game = {}"
    by (simp_all add: sample_late_game_def)
  have n: "comp_name sample_noip = ''NOIP''" "comp_week sample_noip = Some 30"
    by (simp_all add: sample_noip_def)
  show ?thesis using h c n by (simp add: skippedGame_def)
qed


subsection \<open>Medals\<close>

text \<open>The results \<open>handleCompetitionResults\<close> leaves behind, and the entry of one
  participant.\<close>

lemma handleCompetitionResults_results:
  "fst (handleCompetitionResults e rnd states cfg cmp ineligible (g, tr)) =
     (if halfIndex e g = 1 \<and> countPassed (contestResults e g states cfg cmp ineligible) = 0
      then contestResults e g states cfg cmp ineligible
      else map (applyExtraPressure e) (contestResults e g states cfg cmp ineligible))"
  by (simp add: Let_def halfIndex_update split: prod.splits)

lemma contestResults_nth:
  "i < length states \<Longrightarrow>
   contestResults e g states cfg cmp ineligible ! i =
     resultFor e (comp_name cmp) (passLineOf e g states cfg cmp) (totalMaxOf cfg cmp)
       (if totalMaxOf cfg cmp > 0 then totalMaxOf cfg cmp / 2 else 0)
       (minOf (rev (sort (map totalScore states)))) (states ! i)"
  by (simp add: contestResults_def Let_def nth_append)

lemma contestResults_nth_absent:
  "j < length ineligible \<Longrightarrow>
   contestResults e g states cfg cmp ineligible ! (length states + j) =
     notParticipatedResult (ineligible ! j)"
  by (simp add: contestResults_def Let_def nth_append)

lemma length_contestResults:
  "length (contestResults e g states cfg cmp ineligible) = length states + length ineligible"
  by (simp add: contestResults_def Let_def)

lemma applyExtraPressure_medal: "r_medal (applyExtraPressure e r) = r_medal r"
  by (simp add: applyExtraPressure_def Let_def)

lemma handler_medal:
  assumes "i < length states"
  shows "r_medal (fst (handleCompetitionResults e rnd states cfg cmp ineligible (g, tr)) ! i)
       = medalOf (comp_name cmp) (st_passLine (states ! i)) (passLineOf e g states cfg cmp)
           (totalScore (states ! i))"
proof -
  have l: "i < length (contestResults e g states cfg cmp ineligible)"
    using assms by (simp add: length_contestResults)
  have "r_medal (fst (handleCompetitionResults e rnd states cfg cmp ineligible (g, tr)) ! i)
      = r_medal (contestResults e g states cfg cmp ineligible ! i)"
    unfolding handleCompetitionResults_results using l
    by (simp add: applyExtraPressure_medal)
  then show ?thesis
    using assms by (simp add: contestResults_nth resultFor_def Let_def)
qed

lemma handler_medal_absent:
  assumes "j < length ineligible"
  shows "r_medal (fst (handleCompetitionResults e rnd states cfg cmp ineligible (g, tr))
                   ! (length states + j)) = None"
proof -
  have l: "length states + j < length (contestResults e g states cfg cmp ineligible)"
    using assms by (simp add: length_contestResults)
  have "r_medal (fst (handleCompetitionResults e rnd states cfg cmp ineligible (g, tr))
                  ! (length states + j))
      = r_medal (contestResults e g states cfg cmp ineligible ! (length states + j))"
    unfolding handleCompetitionResults_results using l
    by (simp add: applyExtraPressure_medal)
  then show ?thesis
    using assms by (simp add: contestResults_nth_absent notParticipatedResult_def)
qed

text \<open>
  Claim C8, as the code has it. In the results of \<open>handleCompetitionResults\<close> the medal
  of a participant is decided by the chain of comparisons on the pass line \<open>pl\<close>: the
  pass line of the participant's state when that is set and not zero, otherwise the
  line computed by \<open>calculatePassLine\<close> from the sorted scores, the pass rate and the
  maximum of the contest. In the final stage the medal is gold iff the score reaches
  \<open>pl\<close>, silver iff it lies in \<open>[0.7 \<times> pl, pl)\<close>, bronze iff it lies in
  \<open>[0.5 \<times> pl, 0.7 \<times> pl)\<close>, and none otherwise; for a positive pass line a score of exactly
  \<open>0.7 \<times> pl\<close> is silver. Other contests give no medal, and neither does an entry of a
  competitor who did not take part. The older screen \<open>holdCompetitionModal\<close> decides by
  0.9, 0.6 and 0.4 of the contest's maximum score instead.
\<close>

theorem medal_thresholds:
  "(i < length states \<longrightarrow>
      r_medal (fst (handleCompetitionResults e rnd states cfg cmp ineligible (g, tr)) ! i)
        = medalOf (comp_name cmp) (st_passLine (states ! i)) (passLineOf e g states cfg cmp)
            (totalScore (states ! i)))
 \<and> (i < length states \<and> comp_name cmp = ''NOI'' \<longrightarrow>
      (r_medal (fst (handleCompetitionResults e rnd states cfg cmp ineligible (g, tr)) ! i)
         = Some gold
         \<longleftrightarrow> totalScore (states ! i)
               \<ge> js_or (st_passLine (states ! i)) (passLineOf e g states cfg cmp) * 1)
    \<and> (r_medal (fst (handleCompetitionResults e rnd states cfg cmp ineligible (g, tr)) ! i)
         = Some silver
         \<longleftrightarrow> js_or (st_passLine (states ! i)) (passLineOf e g states cfg cmp) * (7 / 10)
               \<le> totalScore (states ! i)
             \<and> totalScore (states ! i)
               < js_or (st_passLine (states ! i)) (passLineOf e g states cfg cmp) * 1)
    \<and> (r_medal (fst (handleCompetitionResults e rnd states cfg cmp ineligible (g, tr)) ! i)
         = Some bronze
         \<longleftrightarrow> js_or (st_passLine (states ! i)) (passLineOf e g states cfg cmp) * (5 / 10)
               \<le> totalScore (states ! i)
             \<and> totalScore (states ! i)
               < js_or (st_passLine (states ! i)) (passLineOf e g states cfg cmp) * (7 / 10))
    \<and> (r_medal (fst (handleCompetitionResults e rnd states cfg cmp ineligible (g, tr)) ! i)
         = None
         \<longleftrightarrow> totalScore (states ! i)
               < js_or (st_passLine (states ! i)) (passLineOf e g states cfg cmp) * 1
             \<and> totalScore (states ! i)
               < js_or (st_passLine (states ! i)) (passLineOf e g states cfg cmp) * (7 / 10)
             \<and> totalScore (states ! i)
               < js_or (st_passLine (states ! i)) (passLineOf e g states cfg cmp) * (5 / 10)))
 \<and> (i < length states \<and> comp_name cmp \<noteq> ''NOI'' \<longrightarrow>
      r_medal (fst (handleCompetitionResults e rnd states cfg cmp ineligible (g, tr)) ! i)
        = None)
 \<and> (j < length ineligible \<longrightarrow>
      r_medal (fst (handleCompetitionResults e rnd states cfg cmp ineligible (g, tr))
                ! (length states + j)) = None)
 \<and> passLineOf e g states cfg cmp
      = calculatePassLine e (rev (sort (map totalScore states)))
          (getPassRateForCompetition e g (comp_name cmp)) (totalMaxOf cfg cmp) (comp_name cmp)
 \<and> (medalOf ''NOI'' None passLine score = Some gold \<longleftrightarrow> score \<ge> passLine * 1)
 \<and> (medalOf ''NOI'' None passLine score = Some silver
       \<longleftrightarrow> passLine * (7 / 10) \<le> score \<and> score < passLine * 1)
 \<and> (medalOf ''NOI'' None passLine score = Some bronze
       \<longleftrightarrow> passLine * (5 / 10) \<le> score \<and> score < passLine * (7 / 10))
 \<and> (medalOf ''NOI'' None passLine score = None
       \<longleftrightarrow> \<not> score \<ge> passLine * 1
           \<and> \<not> (passLine * (7 / 10) \<le> score \<and> score < passLine * 1)
           \<and> \<not> (passLine * (5 / 10) \<le> score \<and> score < passLine * (7 / 10)))
 \<and> (0 < passLine \<longrightarrow> medalOf ''NOI'' None passLine (passLine * (7 / 10)) = Some silver)
 \<and> medalOf compName (Some statePassLine) passLine score
      = medalOf compName None (if statePassLine \<noteq> 0 then statePassLine else passLine) score
 \<and> (compName \<noteq> ''NOI'' \<longrightarrow> medalOf compName None passLine score = None)
 \<and> legacyMedal ''NOI'' compMaxScore score =
      (if score \<ge> compMaxScore * (9 / 10) then Some gold
       else if score \<ge> compMaxScore * (6 / 10) then Some silver
       else if score \<ge> compMaxScore * (4 / 10) then Some bronze else None)"
proof -
  let ?m = "r_medal (fst (handleCompetitionResults e rnd states cfg cmp ineligible (g, tr)) ! i)"
  let ?pl = "js_or (st_passLine (states ! i)) (passLineOf e g states cfg cmp)"
  let ?sc = "totalScore (states ! i)"
  have tie: "i < length states \<longrightarrow>
      ?m = medalOf (comp_name cmp) (st_passLine (states ! i)) (passLineOf e g states cfg cmp) ?sc"
    using handler_medal[of i states e rnd cfg cmp ineligible g tr] by blast
  have chain: "medalOf ''NOI'' (st_passLine (states ! i)) (passLineOf e g states cfg cmp) ?sc
      = (if ?sc \<ge> ?pl * 1 then Some gold
         else if ?sc \<ge> ?pl * (7 / 10) then Some silver
         else if ?sc \<ge> ?pl * (5 / 10) then Some bronze else None)"
    by (simp add: medalOf_def js_or_def Let_def split: option.splits)
  have noi: "i < length states \<and> comp_name cmp = ''NOI'' \<longrightarrow>
      (?m = Some gold \<longleftrightarrow> ?sc \<ge> ?pl * 1)
    \<and> (?m = Some silver \<longleftrightarrow> ?pl * (7 / 10) \<le> ?sc \<and> ?sc < ?pl * 1)
    \<and> (?m = Some bronze \<longleftrightarrow> ?pl * (5 / 10) \<le> ?sc \<and> ?sc < ?pl * (7 / 10))
    \<and> (?m = None \<longleftrightarrow> ?sc < ?pl * 1 \<and> ?sc < ?pl * (7 / 10) \<and> ?sc < ?pl * (5 / 10))"
  proof
    assume h: "i < length states \<and> comp_name cmp = ''NOI''"
    with tie chain have m: "?m = (if ?sc \<ge> ?pl * 1 then Some gold
         else if ?sc \<ge> ?pl * (7 / 10) then Some silver
         else if ?sc \<ge> ?pl * (5 / 10) then Some bronze else None)" by simp
    show "(?m = Some gold \<longleftrightarrow> ?sc \<ge> ?pl * 1)
        \<and> (?m = Some silver \<longleftrightarrow> ?pl * (7 / 10) \<le> ?sc \<and> ?sc < ?pl * 1)
        \<and> (?m = Some bronze \<longleftrightarrow> ?pl * (5 / 10) \<le> ?sc \<and> ?sc < ?pl * (7 / 10))
        \<and> (?m = None \<longleftrightarrow> ?sc < ?pl * 1 \<and> ?sc < ?pl * (7 / 10) \<and> ?sc < ?pl * (5 / 10))"
      unfolding m by auto
  qed
  have other: "i < length states \<and> comp_name cmp \<noteq> ''NOI'' \<longrightarrow> ?m = None"
    using tie by (simp add: medalOf_def)
  have absent: "j < length ineligible \<longrightarrow>
      r_medal (fst (handleCompetitionResults e rnd states cfg cmp ineligible (g, tr))
                ! (length states + j)) = None"
    using handler_medal_absent[of j ineligible e rnd states cfg cmp g tr] by blast
  have line: "passLineOf e g states cfg cmp
      = calculatePassLine e (rev (sort (map totalScore states)))
          (getPassRateForCompetition e g (comp_name cmp)) (totalMaxOf cfg cmp) (comp_name cmp)"
    by (simp add: passLineOf_def)
  have rest: "(medalOf ''NOI'' None passLine score = Some gold \<longleftrightarrow> score \<ge> passLine * 1)
 \<and> (medalOf ''NOI'' None passLine score = Some silver
       \<longleftrightarrow> passLine * (7 / 10) \<le> score \<and> score < passLine * 1)
 \<and> (medalOf ''NOI'' None passLine score = Some bronze
       \<longleftrightarrow> passLine * (5 / 10) \<le> score \<and> score < passLine * (7 / 10))
 \<and> (medalOf ''NOI'' None passLine score = None
       \<longleftrightarrow> \<not> score \<ge> passLine * 1
           \<and> \<not> (passLine * (7 / 10) \<le> score \<and> score < passLine * 1)
           \<and> \<not> (passLine * (5 / 10) \<le> score \<and> score < passLine * (7 / 10)))
 \<and> (0 < passLine \<longrightarrow> medalOf ''NOI'' None passLine (passLine * (7 / 10)) = Some silver)
 \<and> medalOf compName (Some statePassLine) passLine score
      = medalOf compName None (if statePassLine \<noteq> 0 then statePassLine else passLine) score
 \<and> (compName \<noteq> ''NOI'' \<longrightarrow> medalOf compName None passLine score = None)
 \<and> legacyMedal ''NOI'' compMaxScore score =
      (if score \<ge> compMaxScore * (9 / 10) then Some gold
       else if score \<ge> compMaxScore * (6 / 10) then Some silver
       else if score \<ge> compMaxScore * (4 / 10) then Some bronze else None)"
    by (auto simp: medalOf_def legacyMedal_def js_or_def NOI_GOLD_THRESHOLD_def
        NOI_SILVER_THRESHOLD_def NOI_BRONZE_THRESHOLD_def Let_def)
  from tie noi other absent line rest show ?thesis by blast
qed

lemma sample_noi_passLine:
  "passLineOf sample_env sample_game sample_noi_states sample_config sample_noi = 240"
  by (simp add: passLineOf_def calculatePassLine_def getPassRateForCompetition_def
        totalMaxOf_def sample_noi_states_def sample_config_def sample_noi_def sample_env_def
        sample_game_def sample_problem_defs globalOr_def js_or_def province_normal_def
        province_strong_def province_weak_def name_provincial_def Let_def)

text \<open>The theorem at a final stage of 300 points with two participants who scored 168
  and 240, and one competitor who did not take part: the computed pass line is 240, the
  first participant, at exactly 0.7 of it, gets silver, the second gold, the absent
  competitor nothing, and in the first contest of the chain nobody gets a medal. At the
  pass line 300: 210 is silver, 300 gold, 150 bronze and 149 nothing.\<close>

theorem medal_thresholds_witness:
  "0 < length sample_noi_states \<and> 1 < length sample_noi_states
   \<and> 0 < length [sample_learned]
   \<and> comp_name sample_noi = ''NOI'' \<and> comp_name sample_csp1 \<noteq> ''NOI''
   \<and> passLineOf sample_env sample_game sample_noi_states sample_config sample_noi = 240
   \<and> totalScore (sample_noi_states ! 0) = 240 * (7 / 10)
   \<and> r_medal (fst (handleCompetitionResults sample_env (\<lambda>i. 0) sample_noi_states
                     sample_config sample_noi [sample_learned] (sample_game, [])) ! 0)
       = Some silver
   \<and> r_medal (fst (handleCompetitionResults sample_env (\<lambda>i. 0) sample_noi_states
                     sample_config sample_noi [sample_learned] (sample_game, [])) ! 1)
       = Some gold
   \<and> r_medal (fst (handleCompetitionResults sample_env (\<lambda>i. 0) sample_noi_states
                     sample_config sample_noi [sample_learned] (sample_game, []))
               ! (length sample_noi_states + 0)) = None
   \<and> r_medal (fst (handleCompetitionResults sample_env (\<lambda>i. 0) sample_noi_states
                     sample_config sample_csp1 [sample_learned] (sample_game, [])) ! 1)
       = None
   \<and> (0::real) < 300 \<and> ''CSP-S1'' \<noteq> ''NOI'' \<and> medalOf ''NOI'' None 300 210 = Some silver
   \<and> medalOf ''NOI'' None 300 300 = Some gold \<and> medalOf ''NOI'' None 300 150 = Some bronze
   \<and> medalOf ''NOI'' None 300 149 = None \<and> medalOf ''CSP-S1'' None 300 300 = None"
proof -
  let ?H = "fst (handleCompetitionResults sample_env (\<lambda>i. 0) sample_noi_states
                     sample_config sample_noi [sample_learned] (sample_game, []))"
  let ?C = "fst (handleCompetitionResults sample_env (\<lambda>i. 0) sample_noi_states
                     sample_config sample_csp1 [sample_learned] (sample_game, []))"
  let ?pl = "passLineOf sample_env sample_game sample_noi_states sample_config sample_noi"
  have st: "st_passLine (sample_noi_states ! 0) = None"
    "st_passLine (sample_noi_states ! 1) = None"
    "totalScore (sample_noi_states ! 0) = 168" "totalScore (sample_noi_states ! 1) = 240"
    "st_passLine (sample_noi_states ! Suc 0) = None"
    "totalScore (sample_noi_states ! Suc 0) = 240"
    by (simp_all add: sample_noi_states_def)
  have l: "0 < length sample_noi_states" "1 < length sample_noi_states"
    "0 < length [sample_learned]"
    by (simp_all add: sample_noi_states_def)
  have nm: "comp_name sample_noi = ''NOI''" "comp_name sample_csp1 \<noteq> ''NOI''"
    by (simp_all add: sample_noi_def sample_csp1_def)
  note a = medal_thresholds[where i=0 and j=0 and states=sample_noi_states and e=sample_env
            and rnd="\<lambda>i. 0" and cfg=sample_config and cmp=sample_noi
            and ineligible="[sample_learned]" and g=sample_game and tr="[]"
            and passLine=300 and score=210 and compName="''CSP-S1''"
            and statePassLine=0 and compMaxScore=0]
  note b = medal_thresholds[where i=1 and j=0 and states=sample_noi_states and e=sample_env
            and rnd="\<lambda>i. 0" and cfg=sample_config and cmp=sample_noi
            and ineligible="[sample_learned]" and g=sample_game and tr="[]"
            and passLine=300 and score=300 and compName="''CSP-S1''"
            and statePassLine=0 and compMaxScore=0]
  note c = medal_thresholds[where i=1 and j=0 and states=sample_noi_states and e=sample_env
            and rnd="\<lambda>i. 0" and cfg=sample_config and cmp=sample_csp1
            and ineligible="[sample_learned]" and g=sample_game and tr="[]"
            and passLine=300 and score=150 and compName="''CSP-S1''"
            and statePassLine=0 and compMaxScore=0]
  note d = medal_thresholds[where i=1 and j=0 and states=sample_noi_states and e=sample_env
            and rnd="\<lambda>i. 0" and cfg=sample_config and cmp=sample_csp1
            and ineligible="[sample_learned]" and g=sample_game and tr="[]"
            and passLine=300 and score=149 and compName="''CSP-S1''"
            and statePassLine=0 and compMaxScore=0]
  note noi0 = a[THEN conjunct2, THEN conjunct1, THEN mp, OF conjI[OF l(1) nm(1)]]
  note noi1 = b[THEN conjunct2, THEN conjunct1, THEN mp, OF conjI[OF l(2) nm(1)]]
  from noi0[THEN conjunct2, THEN conjunct1]
  have silver: "r_medal (?H ! 0) = Some silver"
    by (simp add: st sample_noi_passLine js_or_def del: handleCompetitionResults.simps)
  from noi1[THEN conjunct1]
  have gold: "r_medal (?H ! 1) = Some gold"
    by (simp add: st sample_noi_passLine js_or_def del: handleCompetitionResults.simps)
  note absent =
    a[THEN conjunct2, THEN conjunct2, THEN conjunct2, THEN conjunct1, THEN mp, OF l(3)]
  note other =
    c[THEN conjunct2, THEN conjunct2, THEN conjunct1, THEN mp, OF conjI[OF l(2) nm(2)]]
  note ra = a[THEN conjunct2, THEN conjunct2, THEN conjunct2, THEN conjunct2, THEN conjunct2]
  note rb = b[THEN conjunct2, THEN conjunct2, THEN conjunct2, THEN conjunct2, THEN conjunct2]
  note rc = c[THEN conjunct2, THEN conjunct2, THEN conjunct2, THEN conjunct2, THEN conjunct2]
  note rd = d[THEN conjunct2, THEN conjunct2, THEN conjunct2, THEN conjunct2, THEN conjunct2]
  from ra[THEN conjunct2, THEN conjunct1]
  have m1: "medalOf ''NOI'' None 300 210 = Some silver" by simp
  from rb[THEN conjunct1]
  have m2: "medalOf ''NOI'' None 300 300 = Some gold" by simp
  from rc[THEN conjunct2, THEN conjunct2, THEN conjunct1]
  have m3: "medalOf ''NOI'' None 300 150 = Some bronze" by simp
  from rd[THEN conjunct2, THEN conjunct2, THEN conjunct2, THEN conjunct1]
  have m4: "medalOf ''NOI'' None 300 149 = None" by simp
  from rb[THEN conjunct2, THEN conjunct2, THEN conjunct2, THEN conjunct2, THEN conjunct2,
          THEN conjunct2, THEN conjunct1]
  have m5: "medalOf ''CSP-S1'' None 300 300 = None" by simp
  have e: "totalScore (sample_noi_states ! 0) = 240 * (7 / 10)" by (simp add: st)
  have k: "(0::real) < 300 \<and> ''CSP-S1'' \<noteq> ''NOI''" by simp
  from l nm sample_noi_passLine e silver gold absent other k m1 m2 m3 m4 m5
  show ?thesis by blast
qed

text \<open>Claim C8 as the specification words it fails on \<open>holdCompetitionModal\<close>: in a
  normal province with reputation 50 the pass line of the final stage with maximum 400
  is 200; a total of 250 is above it and gets silver there, not gold, because the
  thresholds are fractions of the maximum score.\<close>

theorem legacy_medal_keys_off_maximum:
  "legacyPassLine True province_normal ''NOI'' 400 50 = 200
   \<and> (250::real) \<ge> 200 * 1
   \<and> legacyMedal ''NOI'' 400 250 = Some silver
   \<and> medalOf ''NOI'' None 200 250 = Some gold"
  by (simp add: legacyPassLine_def legacyMedal_def medalOf_def js_or_def Let_def
        province_normal_def province_strong_def name_provincial_def NOI_GOLD_THRESHOLD_def
        NOI_SILVER_THRESHOLD_def NOI_BRONZE_THRESHOLD_def)

subsection \<open>Where the bounded axes are clamped\<close>

lemma trainGains_frame:
  "pressure (trainGains c topic intensity u1 u2 s) = pressure s"
  "sick_weeks (trainGains c topic intensity u1 u2 s) = sick_weeks s"
  by (simp_all add: trainGains_def Let_def)

lemma pressure_increase_cong:
  "sick_weeks s = sick_weeks s' \<Longrightarrow>
   pressure_increase c topic intensity s = pressure_increase c topic intensity s'"
  by (simp add: pressure_increase_def)

lemma trainStudent_caps:
  "thinking (trainStudent c topic intensity u1 u2 s) \<le> 100"
  "coding (trainStudent c topic intensity u1 u2 s) \<le> 100"
  by (simp_all add: trainStudent_def Let_def)

lemma trainStudent_pressure:
  "pressure (trainStudent c topic intensity u1 u2 s)
     = pressure s + pressure_increase c topic intensity s"
proof -
  let ?t = "trainGains c topic intensity u1 u2 (s\<lparr>comfort := getComfort c\<rparr>)"
  have "pressure_increase c topic intensity
          (?t\<lparr>thinking := min 100 (thinking ?t), coding := min 100 (coding ?t)\<rparr>)
        = pressure_increase c topic intensity s"
    by (rule pressure_increase_cong) (simp add: trainGains_frame)
  then show ?thesis
    by (simp add: trainStudent_def Let_def trainGains_frame)
qed

lemma addKnowledge_fold_pressure:
  "pressure (foldl (\<lambda>st t. addKnowledge st t a) s ts) = pressure s"
  by (induction ts arbitrary: s; simp add: addKnowledge_def)

lemma mockProblemGain_pressure: "pressure (mockProblemGain b t s p) = pressure s"
  by (cases p) (simp add: mockProblemGain_def Let_def addKnowledge_fold_pressure)

lemma mock_loop_pressure: "pressure (foldl (mockProblemGain b t) s ps) = pressure s"
  by (induction ps arbitrary: s) (simp_all add: mockProblemGain_pressure)

lemma mockApplyStudent_axes:
  "0 \<le> mental (mockApplyStudent b t ps um s)"
  "mental (mockApplyStudent b t ps um s) \<le> 100"
  "pressure (mockApplyStudent b t ps um s) = pressure s + mock_pressure_gain t"
  by (simp_all add: mockApplyStudent_def Let_def clamp_def mock_loop_pressure)

lemma compApplyStudent_pressure:
  "pressure (compApplyStudent n mx found up um s) = pressure s +
     (if n = ''NOI'' then 40 else if n = name_provincial then uniform up 20 35
      else if n = ''NOIP'' then uniform up 15 25 else uniform up 5 10)"
  by (simp add: compApplyStudent_def Let_def split: option.splits)

lemma weeklyStudent_pressure:
  "0 \<le> pressure (weeklyStudent c w s)" "pressure (weeklyStudent c w s) \<le> 100"
  by (simp_all add: weeklyStudent_def Let_def)

lemma handler_clamps:
  "pressure (basePressureUpdate e False s) \<le> 100"
  "0 \<le> pressure (basePressureUpdate e True s)"
  "mental (basePressureUpdate e True s) \<le> 100"
  "0 \<le> mental (basePressureUpdate e False s)"
  "pressure (r_student (applyExtraPressure e r)) \<le> 100 \<or> applyExtraPressure e r = r"
  by (simp_all add: basePressureUpdate_def applyExtraPressure_def Let_def)

lemma handler_student:
  assumes "i < length states"
  shows "r_student (contestResults e g states cfg cmp ineligible ! i)
       = basePressureUpdate e (passLineOf e g states cfg cmp \<le> totalScore (states ! i))
           (st_student (states ! i))
     \<and> (fst (handleCompetitionResults e rnd states cfg cmp ineligible (g, tr)) ! i
          = contestResults e g states cfg cmp ineligible ! i
        \<or> fst (handleCompetitionResults e rnd states cfg cmp ineligible (g, tr)) ! i
          = applyExtraPressure e (contestResults e g states cfg cmp ineligible ! i))"
proof -
  have l: "i < length (contestResults e g states cfg cmp ineligible)"
    using assms by (simp add: length_contestResults)
  show ?thesis
    unfolding handleCompetitionResults_results using assms l
    by (simp add: contestResults_nth resultFor_def Let_def)
qed

lemma basePressureUpdate_range:
  assumes "0 \<le> pressure s" "pressure s \<le> 100" "0 \<le> mental s" "mental s \<le> 100"
    and "0 \<le> globalOr e ''PRESSURE_INCREASE_MULTIPLIER'' 1"
  shows "0 \<le> pressure (basePressureUpdate e passed s)
       \<and> pressure (basePressureUpdate e passed s) \<le> 100
       \<and> 0 \<le> mental (basePressureUpdate e passed s)
       \<and> mental (basePressureUpdate e passed s) \<le> 100"
  using assms by (simp add: basePressureUpdate_def Let_def)

lemma applyExtraPressure_range:
  assumes "0 \<le> pressure (r_student r)" "pressure (r_student r) \<le> 100"
    and "0 \<le> globalOr e ''PRESSURE_INCREASE_MULTIPLIER'' 1"
  shows "0 \<le> pressure (r_student (applyExtraPressure e r))
       \<and> pressure (r_student (applyExtraPressure e r)) \<le> 100
       \<and> mental (r_student (applyExtraPressure e r)) = mental (r_student r)"
  using assms by (simp add: applyExtraPressure_def Let_def)

lemma handler_range:
  assumes "i < length states"
    and "0 \<le> pressure (st_student (states ! i))" "pressure (st_student (states ! i)) \<le> 100"
    and "0 \<le> mental (st_student (states ! i))" "mental (st_student (states ! i)) \<le> 100"
    and "0 \<le> globalOr e ''PRESSURE_INCREASE_MULTIPLIER'' 1"
  shows "0 \<le> pressure (r_student
               (fst (handleCompetitionResults e rnd states cfg cmp ineligible (g, tr)) ! i))
     \<and> pressure (r_student
               (fst (handleCompetitionResults e rnd states cfg cmp ineligible (g, tr)) ! i))
         \<le> 100
     \<and> 0 \<le> mental (r_student
               (fst (handleCompetitionResults e rnd states cfg cmp ineligible (g, tr)) ! i))
     \<and> mental (r_student
               (fst (handleCompetitionResults e rnd states cfg cmp ineligible (g, tr)) ! i))
         \<le> 100"
proof -
  let ?c = "contestResults e g states cfg cmp ineligible ! i"
  let ?h = "fst (handleCompetitionResults e rnd states cfg cmp ineligible (g, tr)) ! i"
  from handler_student[OF assms(1), of e g cfg cmp ineligible rnd tr]
  have st: "r_student ?c
       = basePressureUpdate e (passLineOf e g states cfg cmp \<le> totalScore (states ! i))
           (st_student (states ! i))"
    and alt: "?h = ?c \<or> ?h = applyExtraPressure e ?c" by blast+
  have base: "0 \<le> pressure (r_student ?c) \<and> pressure (r_student ?c) \<le> 100
       \<and> 0 \<le> mental (r_student ?c) \<and> mental (r_student ?c) \<le> 100"
    unfolding st by (rule basePressureUpdate_range[OF assms(2-6)])
  from alt show ?thesis
  proof
    assume "?h = ?c"
    with base show ?thesis by simp
  next
    assume h: "?h = applyExtraPressure e ?c"
    from base applyExtraPressure_range[OF _ _ assms(6), of ?c] show ?thesis
      unfolding h by simp
  qed
qed

text \<open>
  Claim C7, as the code has it. Training cuts thinking and coding at 100, and the older
  mock-contest screen clamps mental into [0, 100]. In \<open>handleCompetitionResults\<close> every
  participant leaves with the competitor the pass or fail update produced, with or
  without the extra pressure; that update clamps the pressure and the mental it changes
  (the increase at 100, the decrease at 0), and a participant who enters with pressure
  and mental in [0, 100], the pressure multiplier not being negative, is in the results
  with both in [0, 100]. The pressure increase of training, of the older mock-contest
  screen and of the older formal-contest screen is added without a clamp: the pressure
  afterwards is the pressure before plus the increase. The weekly update of an active
  competitor leaves the pressure in [0, 100], whatever it was before.
\<close>

theorem clamping_of_bounded_axes:
  "thinking (trainStudent c topic intensity u1 u2 s) \<le> 100
 \<and> coding (trainStudent c topic intensity u1 u2 s) \<le> 100
 \<and> pressure (trainStudent c topic intensity u1 u2 s)
      = pressure s + pressure_increase c topic intensity s
 \<and> 0 \<le> mental (mockApplyStudent isPurchased rtotal probs um s)
 \<and> mental (mockApplyStudent isPurchased rtotal probs um s) \<le> 100
 \<and> pressure (mockApplyStudent isPurchased rtotal probs um s)
      = pressure s + mock_pressure_gain rtotal
 \<and> pressure (compApplyStudent compName compMaxScore found up um s)
      = pressure s +
        (if compName = ''NOI'' then 40
         else if compName = name_provincial then uniform up 20 35
         else if compName = ''NOIP'' then uniform up 15 25 else uniform up 5 10)
 \<and> 0 \<le> pressure (weeklyStudent c weeks s) \<and> pressure (weeklyStudent c weeks s) \<le> 100
 \<and> pressure (basePressureUpdate e False s) \<le> 100
 \<and> 0 \<le> pressure (basePressureUpdate e True s)
 \<and> mental (basePressureUpdate e True s) \<le> 100
 \<and> 0 \<le> mental (basePressureUpdate e False s)
 \<and> (pressure (r_student (applyExtraPressure e r)) \<le> 100 \<or> applyExtraPressure e r = r)
 \<and> (i < length states \<longrightarrow>
      r_student (contestResults e g states cfg cmp ineligible ! i)
        = basePressureUpdate e (passLineOf e g states cfg cmp \<le> totalScore (states ! i))
            (st_student (states ! i))
      \<and> (fst (handleCompetitionResults e rnd states cfg cmp ineligible (g, tr)) ! i
            = contestResults e g states cfg cmp ineligible ! i
          \<or> fst (handleCompetitionResults e rnd states cfg cmp ineligible (g, tr)) ! i
            = applyExtraPressure e (contestResults e g states cfg cmp ineligible ! i)))
 \<and> (i < length states
      \<and> 0 \<le> pressure (st_student (states ! i)) \<and> pressure (st_student (states ! i)) \<le> 100
      \<and> 0 \<le> mental (st_student (states ! i)) \<and> mental (st_student (states ! i)) \<le> 100
      \<and> 0 \<le> globalOr e ''PRESSURE_INCREASE_MULTIPLIER'' 1 \<longrightarrow>
      0 \<le> pressure (r_student
              (fst (handleCompetitionResults e rnd states cfg cmp ineligible (g, tr)) ! i))
      \<and> pressure (r_student
              (fst (handleCompetitionResults e rnd states cfg cmp ineligible (g, tr)) ! i))
          \<le> 100
      \<and> 0 \<le> mental (r_student
              (fst (handleCompetitionResults e rnd states cfg cmp ineligible (g, tr)) ! i))
      \<and> mental (r_student
              (fst (handleCompetitionResults e rnd states cfg cmp ineligible (g, tr)) ! i))
          \<le> 100)"
proof -
  have older: "thinking (trainStudent c topic intensity u1 u2 s) \<le> 100
 \<and> coding (trainStudent c topic intensity u1 u2 s) \<le> 100
 \<and> pressure (trainStudent c topic intensity u1 u2 s)
      = pressure s + pressure_increase c topic intensity s
 \<and> 0 \<le> mental (mockApplyStudent isPurchased rtotal probs um s)
 \<and> mental (mockApplyStudent isPurchased rtotal probs um s) \<le> 100
 \<and> pressure (mockApplyStudent isPurchased rtotal probs um s)
      = pressure s + mock_pressure_gain rtotal
 \<and> pressure (compApplyStudent compName compMaxScore found up um s)
      = pressure s +
        (if compName = ''NOI'' then 40
         else if compName = name_provincial then uniform up 20 35
         else if compName = ''NOIP'' then uniform up 15 25 else uniform up 5 10)
 \<and> 0 \<le> pressure (weeklyStudent c weeks s) \<and> pressure (weeklyStudent c weeks s) \<le> 100
 \<and> pressure (basePressureUpdate e False s) \<le> 100
 \<and> 0 \<le> pressure (basePressureUpdate e True s)
 \<and> mental (basePressureUpdate e True s) \<le> 100
 \<and> 0 \<le> mental (basePressureUpdate e False s)
 \<and> (pressure (r_student (applyExtraPressure e r)) \<le> 100 \<or> applyExtraPressure e r = r)"
    by (simp add: trainStudent_caps trainStudent_pressure mockApplyStudent_axes
        compApplyStudent_pressure weeklyStudent_pressure handler_clamps)
  have entry: "i < length states \<longrightarrow>
      r_student (contestResults e g states cfg cmp ineligible ! i)
        = basePressureUpdate e (passLineOf e g states cfg cmp \<le> totalScore (states ! i))
            (st_student (states ! i))
      \<and> (fst (handleCompetitionResults e rnd states cfg cmp ineligible (g, tr)) ! i
            = contestResults e g states cfg cmp ineligible ! i
          \<or> fst (handleCompetitionResults e rnd states cfg cmp ineligible (g, tr)) ! i
            = applyExtraPressure e (contestResults e g states cfg cmp ineligible ! i))"
    using handler_student[of i states e g cfg cmp ineligible rnd tr] by blast
  have range: "i < length states
      \<and> 0 \<le> pressure (st_student (states ! i)) \<and> pressure (st_student (states ! i)) \<le> 100
      \<and> 0 \<le> mental (st_student (states ! i)) \<and> mental (st_student (states ! i)) \<le> 100
      \<and> 0 \<le> globalOr e ''PRESSURE_INCREASE_MULTIPLIER'' 1 \<longrightarrow>
      0 \<le> pressure (r_student
              (fst (handleCompetitionResults e rnd states cfg cmp ineligible (g, tr)) ! i))
      \<and> pressure (r_student
              (fst (handleCompetitionResults e rnd states cfg cmp ineligible (g, tr)) ! i))
          \<le> 100
      \<and> 0 \<le> mental (r_student
              (fst (handleCompetitionResults e rnd states cfg cmp ineligible (g, tr)) ! i))
      \<and> mental (r_student
              (fst (handleCompetitionResults e rnd states cfg cmp ineligible (g, tr)) ! i))
          \<le> 100"
    using handler_range[of i states e rnd cfg cmp ineligible g tr] by blast
  from older entry range show ?thesis by blast
qed

lemmas campus_defs =
  getComfort_def getWeatherFactor_def getCanteenPressureReduction_def
  getDormComfortBonus_def extreme_temp_def clamp_def sample_campus_def
  EXTREME_COLD_THRESHOLD_def EXTREME_HOT_THRESHOLD_def DORM_COMFORT_BONUS_PER_LEVEL_def
  AC_COMFORT_BONUS_PER_LEVEL_def CANTEEN_PRESSURE_REDUCTION_PER_LEVEL_def

lemma sample_pressure_increase: "pressure_increase sample_campus ''DP'' 1 sample_student = 10"
  by (simp add: pressure_increase_def campus_defs sample_student_def tag_composite_def
        Let_def)

lemma sample_comfort: "getComfort sample_campus = 50"
  by (simp add: campus_defs)

text \<open>The theorem at a light training in dynamic programming of a competitor with
  pressure 95, in mild weather with every facility at level 1: the pressure becomes
  105, and a weekly update of two weeks applied to that competitor leaves 98. The same
  competitor, with mental 50, fails the first contest of the chain with 10 points out
  of 300 and is in the results of \<open>handleCompetitionResults\<close> with a pressure and a
  mental in [0, 100].\<close>

theorem clamping_of_bounded_axes_witness:
  "pressure (trainStudent sample_campus ''DP'' 1 0 0 sample_student) = 105
   \<and> thinking (trainStudent sample_campus ''DP'' 1 0 0 sample_student) \<le> 100
   \<and> pressure (weeklyStudent sample_campus 2
                 (trainStudent sample_campus ''DP'' 1 0 0 sample_student)) = 98
   \<and> 0 < length sample_states
   \<and> st_student (sample_states ! 0) = sample_student
   \<and> pressure sample_student = 95 \<and> mental sample_student = 50
   \<and> 0 \<le> globalOr sample_env ''PRESSURE_INCREASE_MULTIPLIER'' 1
   \<and> 0 \<le> pressure (r_student
           (fst (handleCompetitionResults sample_env (\<lambda>i. 0) sample_states sample_config
                   sample_csp1 [] (sample_game, [])) ! 0))
   \<and> pressure (r_student
           (fst (handleCompetitionResults sample_env (\<lambda>i. 0) sample_states sample_config
                   sample_csp1 [] (sample_game, [])) ! 0)) \<le> 100
   \<and> 0 \<le> mental (r_student
           (fst (handleCompetitionResults sample_env (\<lambda>i. 0) sample_states sample_config
                   sample_csp1 [] (sample_game, [])) ! 0))
   \<and> mental (r_student
           (fst (handleCompetitionResults sample_env (\<lambda>i. 0) sample_states sample_config
                   sample_csp1 [] (sample_game, [])) ! 0)) \<le> 100"
proof -
  have w: "pressure (weeklyStudent sample_campus 2
                 (trainStudent sample_campus ''DP'' 1 0 0 sample_student)) = 98"
    by (simp add: weeklyStudent_def Let_def trainStudent_pressure sample_pressure_increase
          sample_comfort RECOVERY_RATE_def) (simp add: sample_student_def)
  have p: "pressure sample_student = 95" "mental sample_student = 50"
    by (simp_all add: sample_student_def)
  have l: "0 < length sample_states" "st_student (sample_states ! 0) = sample_student"
    by (simp_all add: sample_states_def)
  have m: "0 \<le> globalOr sample_env ''PRESSURE_INCREASE_MULTIPLIER'' 1"
    by (simp add: globalOr_def sample_env_def)
  have h: "0 < length sample_states
      \<and> 0 \<le> pressure (st_student (sample_states ! 0))
      \<and> pressure (st_student (sample_states ! 0)) \<le> 100
      \<and> 0 \<le> mental (st_student (sample_states ! 0))
      \<and> mental (st_student (sample_states ! 0)) \<le> 100
      \<and> 0 \<le> globalOr sample_env ''PRESSURE_INCREASE_MULTIPLIER'' 1"
    using l m by (simp add: p)
  note t = clamping_of_bounded_axes
            [where c=sample_campus and topic="''DP''" and intensity=1 and ?u1.0=0 and ?u2.0=0
               and s=sample_student and isPurchased=False and rtotal=0 and probs="[]"
               and um=0 and compName="''NOI''" and compMaxScore=400 and found=None
               and up=0 and weeks=2 and e=sample_env and i=0 and states=sample_states
               and g=sample_game and cfg=sample_config and cmp=sample_csp1
               and ineligible="[]" and rnd="\<lambda>i. 0" and tr="[]"]
  note train = t[THEN conjunct1]
    t[THEN conjunct2, THEN conjunct2, THEN conjunct1]
  note range = t[THEN conjunct2, THEN conjunct2, THEN conjunct2, THEN conjunct2,
     THEN conjunct2, THEN conjunct2, THEN conjunct2, THEN conjunct2, THEN conjunct2,
     THEN conjunct2, THEN conjunct2, THEN conjunct2, THEN conjunct2, THEN conjunct2,
     THEN conjunct2, THEN mp, OF h]
  from train have tr: "pressure (trainStudent sample_campus ''DP'' 1 0 0 sample_student) = 105"
    "thinking (trainStudent sample_campus ''DP'' 1 0 0 sample_student) \<le> 100"
    by (simp_all add: sample_pressure_increase p)
  from tr w l p m range show ?thesis by blast
qed

text \<open>Claim C7 as the specification words it fails: a competitor with pressure 95 has
  pressure 105 after a light training, 125 after the older mock-contest screen applies a
  total below 100, and 135 after the older formal-contest screen applies the final
  stage.\<close>

theorem training_pressure_exceeds_100:
  "pressure sample_student = 95
   \<and> pressure (trainStudent sample_campus ''DP'' 1 0 0 sample_student) = 105
   \<and> \<not> pressure (trainStudent sample_campus ''DP'' 1 0 0 sample_student) \<le> 100
   \<and> pressure (mockApplyStudent False 0 [] 0 sample_student) = 125
   \<and> pressure (compApplyStudent ''NOI'' 400 None 0 0 sample_student) = 135"
  by (simp add: trainStudent_pressure mockApplyStudent_axes compApplyStudent_pressure
        sample_pressure_increase mock_pressure_gain_def)
     (simp add: sample_student_def)

end
